theory Spec2Isabelle
  imports Complex_Main
begin

section \<open>The simulation engine of the side-scrolling game (game.js)\<close>

text \<open>
  The class \<open>GeometryDashGame\<close> of \<open>game.js\<close> is embedded as functions on a record of its
  fields. JavaScript numbers are modelled as \<open>real\<close> (IEEE rounding, infinities and NaN
  are outside the model; where the source can produce them this is written out), the
  integer-valued counters (\<open>score\<close>, \<open>distance\<close>, the millisecond clock) as \<open>int\<close>.
  The two things the class reads from its environment are made explicit: \<open>Date.now()\<close>
  is an argument of the functions that read it, and \<open>Math.random()\<close> reads the next
  element of a stream of numbers carried in the state.
\<close>

subsection \<open>Data model\<close>

datatype phase = Menu | Playing | GameOver

datatype obstacleType = Spike | Block

datatype featureType = SpikeFeature | BlockFeature | PlatformFeature

datatype error = TypeError | NotANumber

record point =
  cx :: real
  cy :: real

type_synonym triangle = "point \<times> point \<times> point"

record player =
  px :: real
  py :: real
  pwidth :: real
  pheight :: real
  velocityY :: real
  isGrounded :: bool
  rotation :: real
  pcolor :: string

record obstacle =
  ox :: real
  oy :: real
  owidth :: real
  oheight :: real
  otype :: obstacleType
  ocolor :: string

record platform =
  fx :: real
  fy :: real
  fwidth :: real
  fheight :: real
  fcolor :: string

record particle =
  qx :: real
  qy :: real
  vx :: real
  vy :: real
  life :: real
  decay :: real
  qcolor :: string
  qsize :: real

text \<open>
  The fields of the game object. \<open>randomSource\<close> and \<open>randomCount\<close> are the stream that
  \<open>Math.random()\<close> reads and the number of draws made so far. \<open>autoJumpLog\<close> is a history
  variable that the source does not have: \<open>autoJump\<close> appends to it, at each of its three
  calls of \<open>this.jump()\<close>, the clock value and the \<open>isGrounded\<close> flag the player has at
  that call. No function reads it.
\<close>

record game =
  gameWidth :: real
  gameHeight :: real
  touchStartTime :: int
  touchCooldown :: int
  gameState :: phase
  score :: int
  distance :: int
  gameSpeed :: real
  gravity :: real
  jumpForce :: real
  player :: player
  obstacles :: "obstacle list"
  platforms :: "platform list"
  particles :: "particle list"
  cameraX :: real
  keys :: "string \<rightharpoonup> bool"
  autoMode :: bool
  lastAutoJumpTime :: int
  autoJumpCooldown :: int
  randomSource :: "nat \<Rightarrow> real"
  randomCount :: nat
  autoJumpLog :: "(int \<times> bool) list"

subsection \<open>Geometry kernel\<close>

text \<open>\<open>linesIntersect(p1, p2, p3, p4)\<close>: the source returns \<open>false\<close> before it divides.\<close>

definition lineDenominator :: "point \<Rightarrow> point \<Rightarrow> point \<Rightarrow> point \<Rightarrow> real" where
  "lineDenominator p1 p2 p3 p4 =
     (cy p4 - cy p3) * (cx p2 - cx p1) - (cx p4 - cx p3) * (cy p2 - cy p1)"

definition lineUa :: "point \<Rightarrow> point \<Rightarrow> point \<Rightarrow> point \<Rightarrow> real" where
  "lineUa p1 p2 p3 p4 =
     ((cx p4 - cx p3) * (cy p1 - cy p3) - (cy p4 - cy p3) * (cx p1 - cx p3))
       / lineDenominator p1 p2 p3 p4"

definition lineUb :: "point \<Rightarrow> point \<Rightarrow> point \<Rightarrow> point \<Rightarrow> real" where
  "lineUb p1 p2 p3 p4 =
     ((cx p2 - cx p1) * (cy p1 - cy p3) - (cy p2 - cy p1) * (cx p1 - cx p3))
       / lineDenominator p1 p2 p3 p4"

definition linesIntersect :: "point \<Rightarrow> point \<Rightarrow> point \<Rightarrow> point \<Rightarrow> bool" where
  "linesIntersect p1 p2 p3 p4 =
     (if lineDenominator p1 p2 p3 p4 = 0 then False
      else (let ua = lineUa p1 p2 p3 p4; ub = lineUb p1 p2 p3 p4
            in ua \<ge> 0 \<and> ua \<le> 1 \<and> ub \<ge> 0 \<and> ub \<le> 1))"

text \<open>
  \<open>pointInTriangle(point, triangle)\<close>. The source divides by \<open>denominator\<close> without a
  test. When it is zero, JavaScript's \<open>a\<close> and \<open>b\<close> are each NaN or an infinity: if both
  are \<open>+Infinity\<close> then \<open>c = 1 - a - b\<close> is \<open>-Infinity\<close>, and otherwise \<open>a >= 0\<close> or
  \<open>b >= 0\<close> is false, so the function returns \<open>false\<close>. HOL's \<open>x / 0 = 0\<close> would give
  another answer, hence the explicit first branch.
\<close>

definition barycentricDenominator :: "triangle \<Rightarrow> real" where
  "barycentricDenominator t =
     (case t of (p1, p2, p3) \<Rightarrow>
        (cy p2 - cy p3) * (cx p1 - cx p3) + (cx p3 - cx p2) * (cy p1 - cy p3))"

definition pointInTriangle :: "point \<Rightarrow> triangle \<Rightarrow> bool" where
  "pointInTriangle pt t =
     (case t of (p1, p2, p3) \<Rightarrow>
        (let denominator = barycentricDenominator t in
         if denominator = 0 then False
         else (let a = ((cy p2 - cy p3) * (cx pt - cx p3) + (cx p3 - cx p2) * (cy pt - cy p3))
                         / denominator;
                   b = ((cy p3 - cy p1) * (cx pt - cx p3) + (cx p1 - cx p3) * (cy pt - cy p3))
                         / denominator;
                   c = 1 - a - b
               in a \<ge> 0 \<and> b \<ge> 0 \<and> c \<ge> 0)))"

subsection \<open>Random numbers and particles\<close>

definition Math_random :: "game \<Rightarrow> real \<times> game" where
  "Math_random g = (randomSource g (randomCount g), g\<lparr>randomCount := Suc (randomCount g)\<rparr>)"

text \<open>
  \<open>addParticles(x, y, color)\<close> pushes eight particles; each draws \<open>vx\<close>, \<open>vy\<close> and
  \<open>size\<close> in this order.
\<close>

fun addParticlesLoop :: "nat \<Rightarrow> real \<Rightarrow> real \<Rightarrow> string \<Rightarrow> game \<Rightarrow> game" where
  "addParticlesLoop 0 x y color g = g"
| "addParticlesLoop (Suc n) x y color g =
     (let (r1, g1) = Math_random g;
          (r2, g2) = Math_random g1;
          (r3, g3) = Math_random g2
      in addParticlesLoop n x y color
           (g3\<lparr>particles := particles g3 @
                 [\<lparr>qx = x, qy = y, vx = (r1 - 0.5) * 10, vy = (r2 - 0.5) * 10,
                   life = 1.0, decay = 0.02, qcolor = color, qsize = r3 * 4 + 2\<rparr>]\<rparr>))"

definition addParticles :: "real \<Rightarrow> real \<Rightarrow> string \<Rightarrow> game \<Rightarrow> game" where
  "addParticles x y color g = addParticlesLoop 8 x y color g"

subsection \<open>Session set-up, jump and the grounded test\<close>

text \<open>
  \<open>resizeCanvas\<close> (the closure of \<open>setupResponsiveCanvas\<close>) with the container's size.
\<close>

definition resizeCanvas :: "real \<Rightarrow> real \<Rightarrow> game \<Rightarrow> game" where
  "resizeCanvas containerWidth containerHeight g =
     (let g1 = g\<lparr>gameWidth := containerWidth, gameHeight := containerHeight\<rparr>
      in if gameState g1 = Playing
         then g1\<lparr>player := (player g1)\<lparr>px := 100, py := gameHeight g1 - 100\<rparr>\<rparr>
         else g1)"

text \<open>
  The constructor. It calls \<open>setupResponsiveCanvas\<close> first, when \<open>gameState\<close> and
  \<open>player\<close> are not assigned yet: the test \<open>this.gameState === 'playing'\<close> of
  \<open>resizeCanvas\<close> is false there, so that call only stores the container's size. The
  assignments of the constructor follow, and \<open>showStartScreen\<close> sets the phase to
  \<open>menu\<close>. The arguments are the container's size and the stream \<open>Math.random()\<close> will
  read.
\<close>

definition constructor :: "real \<Rightarrow> real \<Rightarrow> (nat \<Rightarrow> real) \<Rightarrow> game" where
  "constructor containerWidth containerHeight rnd =
     \<lparr>gameWidth = containerWidth, gameHeight = containerHeight,
      touchStartTime = 0, touchCooldown = 200,
      gameState = Menu, score = 0, distance = 0, gameSpeed = 5,
      gravity = 0.8, jumpForce = -15,
      player = \<lparr>px = 100, py = 0, pwidth = 40, pheight = 40, velocityY = 0,
                isGrounded = False, rotation = 0, pcolor = ''#00ff88''\<rparr>,
      obstacles = [], platforms = [], particles = [],
      cameraX = 0, keys = Map.empty, autoMode = False,
      lastAutoJumpTime = 0, autoJumpCooldown = 800,
      randomSource = rnd, randomCount = 0, autoJumpLog = []\<rparr>"

definition startGame :: "game \<Rightarrow> game" where
  "startGame g = g\<lparr>gameState := Playing\<rparr>"

definition jump :: "game \<Rightarrow> game" where
  "jump g =
     (if isGrounded (player g)
      then (let g1 = g\<lparr>player := (player g)\<lparr>velocityY := jumpForce g, isGrounded := False\<rparr>\<rparr>
            in addParticles (px (player g1) + pwidth (player g1) / 2)
                 (py (player g1) + pheight (player g1)) ''#00ff88'' g1)
      else g)"

definition checkIfGrounded :: "game \<Rightarrow> bool" where
  "checkIfGrounded g =
     (if py (player g) + pheight (player g) \<ge> gameHeight g - 50 then True
      else if list_ex (\<lambda>obstacle. otype obstacle = Block \<and>
                (let obstacleScreenX = ox obstacle - cameraX g
                 in px (player g) < obstacleScreenX + owidth obstacle \<and>
                    px (player g) + pwidth (player g) > obstacleScreenX \<and>
                    \<bar>py (player g) + pheight (player g) - oy obstacle\<bar> < 5))
              (obstacles g) then True
      else if list_ex (\<lambda>platform.
                (let platformScreenX = fx platform - cameraX g
                 in px (player g) < platformScreenX + fwidth platform \<and>
                    px (player g) + pwidth (player g) > platformScreenX \<and>
                    \<bar>py (player g) + pheight (player g) - fy platform\<bar> < 5))
              (platforms g) then True
      else False)"

definition updatePlayer :: "game \<Rightarrow> game" where
  "updatePlayer g =
     (let p1 = (player g)\<lparr>velocityY := velocityY (player g) + gravity g\<rparr>;
          p2 = p1\<lparr>py := py p1 + velocityY p1\<rparr>;
          p3 = (if py p2 + pheight p2 > gameHeight g - 50
                then p2\<lparr>py := gameHeight g - 50 - pheight p2, velocityY := 0\<rparr>
                else p2);
          g3 = g\<lparr>player := p3\<rparr>;
          g4 = g3\<lparr>player := (player g3)\<lparr>isGrounded := checkIfGrounded g3\<rparr>\<rparr>
      in g4\<lparr>player := (player g4)\<lparr>rotation := rotation (player g4) + 0.2\<rparr>\<rparr>)"

subsection \<open>Spawn planner\<close>

text \<open>
  A JavaScript array read \<open>xs[i]\<close>: \<open>None\<close> is the \<open>undefined\<close> that an index out of
  range gives.
\<close>

definition arrayAt :: "'a list \<Rightarrow> int \<Rightarrow> 'a option" where
  "arrayAt xs i = (if 0 \<le> i \<and> i < int (length xs) then Some (xs ! nat i) else None)"

text \<open>
  \<open>getSpikePositions\<close>, as the list of the \<open>y\<close> fields of the positions. Its last
  test reads \<open>this.canvas.height\<close>, which \<open>resizeCanvas\<close> keeps equal to \<open>gameHeight\<close>.
\<close>

definition getSpikePositions :: "game \<Rightarrow> real list" where
  "getSpikePositions g =
     (let positions =
            [gameHeight g - 80]
            @ map (\<lambda>platform. fy platform - 40)
                (filter (\<lambda>platform. fx platform - cameraX g > px (player g) + 100) (platforms g))
            @ map (\<lambda>obstacle. oy obstacle - 40)
                (filter (\<lambda>obstacle. otype obstacle = Block \<and>
                           ox obstacle - cameraX g > px (player g) + 100) (obstacles g))
      in if length positions = 0 then positions @ [gameHeight g - 80] else positions)"

text \<open>The object literal of a spike, which the source writes out six times.\<close>

definition newSpike :: "real \<Rightarrow> real \<Rightarrow> obstacle" where
  "newSpike x y =
     \<lparr>ox = x, oy = y, owidth = 40, oheight = 40, otype = Spike, ocolor = ''#ff4444''\<rparr>"

text \<open>
  The three branches of \<open>generateObstacles\<close>. Reading \<open>position.y\<close> of an \<open>undefined\<close>
  position throws a TypeError; an \<open>undefined\<close> height makes \<open>this.gameHeight - height\<close>
  NaN, which the model reports as an error value since it has no such number. Neither
  happens when \<open>Math.random()\<close> is in \<open>[0, 1)\<close>. The spawn position
  \<open>this.gameWidth + this.cameraX\<close> is an exact sum here and a rounded one in the program,
  so no property below rests on that sum cancelling exactly against the camera offset.
\<close>

definition generateSpike :: "game \<Rightarrow> error + game" where
  "generateSpike g =
     (let spikePositions = getSpikePositions g;
          (r, g1) = Math_random g
      in case arrayAt spikePositions \<lfloor>r * real (length spikePositions)\<rfloor> of
           None \<Rightarrow> Inl TypeError
         | Some position \<Rightarrow>
             (let (spikePattern, g2) = Math_random g1 in
              if spikePattern < 0.7 then
                Inr (g2\<lparr>obstacles := obstacles g2
                          @ [newSpike (gameWidth g2 + cameraX g2) position]\<rparr>)
              else if spikePattern < 0.85 then
                Inr (g2\<lparr>obstacles := obstacles g2
                          @ [newSpike (gameWidth g2 + cameraX g2) position,
                             newSpike (gameWidth g2 + cameraX g2 + 50) position]\<rparr>)
              else
                Inr (g2\<lparr>obstacles := obstacles g2
                          @ [newSpike (gameWidth g2 + cameraX g2) position,
                             newSpike (gameWidth g2 + cameraX g2 + 50) position,
                             newSpike (gameWidth g2 + cameraX g2 + 100) position]\<rparr>)))"

definition generateBlock :: "game \<Rightarrow> error + game" where
  "generateBlock g =
     (let heights = [120, 150, 180];
          (r, g1) = Math_random g
      in case arrayAt heights \<lfloor>r * real (length heights)\<rfloor> of
           None \<Rightarrow> Inl NotANumber
         | Some height \<Rightarrow>
             Inr (g1\<lparr>obstacles := obstacles g1
                       @ [\<lparr>ox = gameWidth g1 + cameraX g1, oy = gameHeight g1 - height,
                           owidth = 40, oheight = 60, otype = Block,
                           ocolor = ''#ffaa00''\<rparr>]\<rparr>))"

definition generatePlatform :: "game \<Rightarrow> error + game" where
  "generatePlatform g =
     (let heights = [150, 200, 250];
          (r, g1) = Math_random g;
          width = (if r < 0.5 then 80 else 120);
          (r', g2) = Math_random g1
      in case arrayAt heights \<lfloor>r' * real (length heights)\<rfloor> of
           None \<Rightarrow> Inl NotANumber
         | Some height \<Rightarrow>
             Inr (g2\<lparr>platforms := platforms g2
                       @ [\<lparr>fx = gameWidth g2 + cameraX g2, fy = gameHeight g2 - height,
                           fwidth = width, fheight = 20, fcolor = ''#00aaff''\<rparr>]\<rparr>))"

text \<open>
  \<open>generateObstacles\<close>. An \<open>undefined\<close> type matches none of the three comparisons, so
  nothing is spawned.
\<close>

definition generateObstacles :: "game \<Rightarrow> error + game" where
  "generateObstacles g =
     (let (r, g1) = Math_random g in
      if r < 0.03 then
        (let obstacleTypes = [SpikeFeature, BlockFeature, PlatformFeature];
             (r', g2) = Math_random g1
         in case arrayAt obstacleTypes \<lfloor>r' * real (length obstacleTypes)\<rfloor> of
              None \<Rightarrow> Inr g2
            | Some SpikeFeature \<Rightarrow> generateSpike g2
            | Some BlockFeature \<Rightarrow> generateBlock g2
            | Some PlatformFeature \<Rightarrow> generatePlatform g2)
      else Inr g1)"

subsection \<open>Scrolling and culling\<close>

text \<open>
  The loops of \<open>updateObstacles\<close> and \<open>updateParticles\<close> run from the last index down
  to 0 and splice the current element out. \<open>Suc i\<close> in the loop functions means that index
  \<open>i\<close> is the next to visit; the loops start at the length of the list, and a splice at
  \<open>i\<close> leaves every smaller index in range.
\<close>

fun updateObstaclesLoop :: "nat \<Rightarrow> game \<Rightarrow> game" where
  "updateObstaclesLoop 0 g = g"
| "updateObstaclesLoop (Suc i) g =
     (let obstacle = (obstacles g ! i)\<lparr>ox := ox (obstacles g ! i) - gameSpeed g\<rparr>;
          g1 = g\<lparr>obstacles := (obstacles g)[i := obstacle]\<rparr>
      in if ox obstacle + owidth obstacle < cameraX g1
         then updateObstaclesLoop i
                (g1\<lparr>obstacles := take i (obstacles g1) @ drop (Suc i) (obstacles g1),
                    score := score g1 + 10\<rparr>)
         else updateObstaclesLoop i g1)"

fun updatePlatformsLoop :: "nat \<Rightarrow> game \<Rightarrow> game" where
  "updatePlatformsLoop 0 g = g"
| "updatePlatformsLoop (Suc i) g =
     (let platform = (platforms g ! i)\<lparr>fx := fx (platforms g ! i) - gameSpeed g\<rparr>;
          g1 = g\<lparr>platforms := (platforms g)[i := platform]\<rparr>
      in if fx platform + fwidth platform < cameraX g1
         then updatePlatformsLoop i
                (g1\<lparr>platforms := take i (platforms g1) @ drop (Suc i) (platforms g1)\<rparr>)
         else updatePlatformsLoop i g1)"

definition updateObstacles :: "game \<Rightarrow> game" where
  "updateObstacles g =
     (let g1 = updateObstaclesLoop (length (obstacles g)) g
      in updatePlatformsLoop (length (platforms g1)) g1)"

fun updateParticlesLoop :: "nat \<Rightarrow> game \<Rightarrow> game" where
  "updateParticlesLoop 0 g = g"
| "updateParticlesLoop (Suc i) g =
     (let p = particles g ! i;
          particle = p\<lparr>qx := qx p + vx p, qy := qy p + vy p, life := life p - decay p\<rparr>;
          g1 = g\<lparr>particles := (particles g)[i := particle]\<rparr>
      in if life particle \<le> 0
         then updateParticlesLoop i
                (g1\<lparr>particles := take i (particles g1) @ drop (Suc i) (particles g1)\<rparr>)
         else updateParticlesLoop i g1)"

definition updateParticles :: "game \<Rightarrow> game" where
  "updateParticles g = updateParticlesLoop (length (particles g)) g"

subsection \<open>Collision engine\<close>

definition gameOver :: "game \<Rightarrow> game" where
  "gameOver g = g\<lparr>gameState := GameOver\<rparr>"

definition trianglePoints :: "obstacle \<Rightarrow> game \<Rightarrow> triangle" where
  "trianglePoints spike g =
     (let spikeX = ox spike - cameraX g; spikeY = oy spike;
          spikeWidth = owidth spike; spikeHeight = oheight spike
      in (\<lparr>cx = spikeX, cy = spikeY + spikeHeight\<rparr>,
          \<lparr>cx = spikeX + spikeWidth / 2, cy = spikeY\<rparr>,
          \<lparr>cx = spikeX + spikeWidth, cy = spikeY + spikeHeight\<rparr>))"

definition checkSpikeCollision :: "obstacle \<Rightarrow> game \<Rightarrow> bool" where
  "checkSpikeCollision spike g =
     (case trianglePoints spike g of (t0, t1, t2) \<Rightarrow>
       (let p = player g;
            playerCorners =
              [\<lparr>cx = px p, cy = py p\<rparr>,
               \<lparr>cx = px p + pwidth p, cy = py p\<rparr>,
               \<lparr>cx = px p, cy = py p + pheight p\<rparr>,
               \<lparr>cx = px p + pwidth p, cy = py p + pheight p\<rparr>]
        in if list_ex (\<lambda>corner. pointInTriangle corner (t0, t1, t2)) playerCorners then True
           else if list_ex (\<lambda>pt. cx pt \<ge> px p \<and> cx pt \<le> px p + pwidth p \<and>
                                  cy pt \<ge> py p \<and> cy pt \<le> py p + pheight p) [t0, t1, t2]
           then True
           else (let triangleEdges = [(t0, t1), (t1, t2), (t2, t0)];
                     playerEdges =
                       [(\<lparr>cx = px p, cy = py p\<rparr>, \<lparr>cx = px p + pwidth p, cy = py p\<rparr>),
                        (\<lparr>cx = px p + pwidth p, cy = py p\<rparr>,
                         \<lparr>cx = px p + pwidth p, cy = py p + pheight p\<rparr>),
                        (\<lparr>cx = px p + pwidth p, cy = py p + pheight p\<rparr>,
                         \<lparr>cx = px p, cy = py p + pheight p\<rparr>),
                        (\<lparr>cx = px p, cy = py p + pheight p\<rparr>, \<lparr>cx = px p, cy = py p\<rparr>)]
                 in list_ex (\<lambda>triangleEdge.
                      list_ex (\<lambda>playerEdge.
                        linesIntersect (fst triangleEdge) (snd triangleEdge)
                          (fst playerEdge) (snd playerEdge)) playerEdges) triangleEdges)))"

text \<open>
  The two tests of the block branch of \<open>checkCollisions\<close>, and of its platform loop.
\<close>

definition landingOnBlock :: "obstacle \<Rightarrow> game \<Rightarrow> bool" where
  "landingOnBlock obstacle g =
     (let obstacleScreenX = ox obstacle - cameraX g in
      px (player g) < obstacleScreenX + owidth obstacle \<and>
      px (player g) + pwidth (player g) > obstacleScreenX \<and>
      py (player g) + pheight (player g) \<ge> oy obstacle \<and>
      py (player g) + pheight (player g) \<le> oy obstacle + oheight obstacle + 5 \<and>
      velocityY (player g) \<ge> 0)"

definition hitsBlock :: "obstacle \<Rightarrow> game \<Rightarrow> bool" where
  "hitsBlock obstacle g =
     (let obstacleScreenX = ox obstacle - cameraX g in
      px (player g) < obstacleScreenX + owidth obstacle \<and>
      px (player g) + pwidth (player g) > obstacleScreenX \<and>
      py (player g) < oy obstacle + oheight obstacle \<and>
      py (player g) + pheight (player g) > oy obstacle)"

definition landingOnPlatform :: "platform \<Rightarrow> game \<Rightarrow> bool" where
  "landingOnPlatform platform g =
     (let platformScreenX = fx platform - cameraX g in
      px (player g) < platformScreenX + fwidth platform \<and>
      px (player g) + pwidth (player g) > platformScreenX \<and>
      py (player g) + pheight (player g) \<ge> fy platform \<and>
      py (player g) + pheight (player g) \<le> fy platform + fheight platform + 5 \<and>
      velocityY (player g) \<ge> 0)"

text \<open>
  The body of the obstacle loop of \<open>checkCollisions\<close>: \<open>Return\<close> is its
  \<open>this.gameOver(); return;\<close>, \<open>Continue\<close> goes on with the next obstacle.
\<close>

datatype flow = Continue game | Return game

definition landOn :: "real \<Rightarrow> string \<Rightarrow> game \<Rightarrow> game" where
  "landOn surfaceY color g =
     (let g1 = g\<lparr>player := (player g)\<lparr>py := surfaceY - pheight (player g), velocityY := 0\<rparr>\<rparr>
      in addParticles (px (player g1) + pwidth (player g1) / 2)
           (py (player g1) + pheight (player g1)) color g1)"

definition checkObstacle :: "obstacle \<Rightarrow> game \<Rightarrow> flow" where
  "checkObstacle obstacle g =
     (if otype obstacle = Spike then
        (if checkSpikeCollision obstacle g then Return (gameOver g) else Continue g)
      else if landingOnBlock obstacle g then Continue (landOn (oy obstacle) ''#ffaa00'' g)
      else if hitsBlock obstacle g then Return (gameOver g)
      else Continue g)"

fun checkObstacles :: "obstacle list \<Rightarrow> game \<Rightarrow> flow" where
  "checkObstacles [] g = Continue g"
| "checkObstacles (obstacle # rest) g =
     (case checkObstacle obstacle g of
        Return g' \<Rightarrow> Return g'
      | Continue g' \<Rightarrow> checkObstacles rest g')"

fun checkPlatforms :: "platform list \<Rightarrow> game \<Rightarrow> game" where
  "checkPlatforms [] g = g"
| "checkPlatforms (platform # rest) g =
     (if landingOnPlatform platform g
      then checkPlatforms rest (landOn (fy platform) ''#00aaff'' g)
      else checkPlatforms rest g)"

definition checkCollisions :: "game \<Rightarrow> game" where
  "checkCollisions g =
     (case checkObstacles (obstacles g) g of
        Return g' \<Rightarrow> g'
      | Continue g' \<Rightarrow> checkPlatforms (platforms g') g')"

subsection \<open>Autoplay controller\<close>

text \<open>
  What each of the three jumping branches of \<open>autoJump\<close> does: \<open>this.jump()\<close>, then
  \<open>this.lastAutoJumpTime = currentTime\<close>. The call is recorded in the history variable.
\<close>

definition autoJumpNow :: "int \<Rightarrow> game \<Rightarrow> game" where
  "autoJumpNow currentTime g =
     (let g1 = g\<lparr>autoJumpLog := autoJumpLog g @ [(currentTime, isGrounded (player g))]\<rparr>
      in (jump g1)\<lparr>lastAutoJumpTime := currentTime\<rparr>)"

text \<open>
  \<open>autoJump\<close>, with the value \<open>Date.now()\<close> returns as \<open>currentTime\<close>. Each of its loops
  returns at the first obstacle that passes the loop's test, so a loop is the test
  \<open>list_ex\<close> on the obstacle list.
\<close>

definition autoJump :: "int \<Rightarrow> game \<Rightarrow> game" where
  "autoJump currentTime g =
     (if \<not> isGrounded (player g) then g
      else if currentTime - lastAutoJumpTime g < autoJumpCooldown g then g
      else
        (let immediateDangerDistance = 40 in
         if list_ex (\<lambda>obstacle.
               (let obstacleScreenX = ox obstacle - cameraX g;
                    distance = obstacleScreenX - px (player g)
                in otype obstacle = Spike \<and> distance > 0 \<and> distance < immediateDangerDistance))
             (obstacles g)
         then autoJumpNow currentTime g
         else if py (player g) \<ge> gameHeight g - 100 \<and>
                 list_ex (\<lambda>obstacle.
                   (let obstacleScreenX = ox obstacle - cameraX g;
                        distance = obstacleScreenX - px (player g)
                    in otype obstacle = Block \<and> distance > 0 \<and>
                       distance < immediateDangerDistance \<and>
                       (let blockTop = oy obstacle;
                            playerBottom = py (player g) + pheight (player g)
                        in blockTop < playerBottom - 40)))
                 (obstacles g)
         then autoJumpNow currentTime g
         else if py (player g) \<ge> gameHeight g - 100 then
           (let gapCheckDistance = 30;
                hasGroundDirectlyAhead =
                  list_ex (\<lambda>obstacle.
                    (let obstacleScreenX = ox obstacle - cameraX g;
                         distance = obstacleScreenX - px (player g)
                     in distance > 0 \<and> distance < gapCheckDistance))
                  (obstacles g)
            in if \<not> hasGroundDirectlyAhead then autoJumpNow currentTime g else g)
         else g))"

subsection \<open>Camera, restart and the tick\<close>

definition updateCamera :: "game \<Rightarrow> game" where
  "updateCamera g =
     (let g1 = g\<lparr>cameraX := cameraX g + gameSpeed g\<rparr>;
          g2 = g1\<lparr>distance := \<lfloor>cameraX g1 / 10\<rfloor>\<rparr>
      in g2\<lparr>gameSpeed := gameSpeed g2 + 0.001\<rparr>)"

definition restartGame :: "game \<Rightarrow> game" where
  "restartGame g =
     startGame
       (g\<lparr>score := 0, distance := 0, gameSpeed := 5, cameraX := 0,
          player := (player g)\<lparr>px := 100, py := gameHeight g - 100, velocityY := 0,
                                isGrounded := False, rotation := 0\<rparr>,
          obstacles := [], platforms := [], particles := []\<rparr>)"

text \<open>
  \<open>update\<close>, one tick. \<open>autoJump\<close> reads the clock, so the tick takes the clock value.
  An error of \<open>generateObstacles\<close> ends the tick there.
\<close>

definition update :: "int \<Rightarrow> game \<Rightarrow> error + game" where
  "update currentTime g =
     (if gameState g \<noteq> Playing then Inr g
      else
        (let g0 = g\<lparr>autoMode := (case keys g ''KeyA'' of Some b \<Rightarrow> b | None \<Rightarrow> False)\<rparr>;
             g1 = updatePlayer g0
         in case generateObstacles g1 of
              Inl e \<Rightarrow> Inl e
            | Inr g2 \<Rightarrow>
                (let g3 = updateObstacles g2;
                     g4 = updateParticles g3;
                     g5 = checkCollisions g4;
                     g6 = updateCamera g5
                 in if autoMode g6 then Inr (autoJump currentTime g6) else Inr g6)))"

subsection \<open>Events of a session\<close>

text \<open>
  What the host delivers to the game object: an animation frame (\<open>gameLoop\<close> calls
  \<open>update\<close>; drawing is left out), the key and touch listeners, the two buttons and a
  resize of the container. \<open>Frame\<close> and \<open>TouchStart\<close> carry the value of \<open>Date.now()\<close>.
\<close>

datatype event =
    Frame int
  | KeyDown string
  | KeyUp string
  | TouchStart int
  | ClickStart
  | ClickRestart
  | Resize real real

fun handle :: "event \<Rightarrow> game \<Rightarrow> error + game" where
  "handle (Frame currentTime) g = update currentTime g"
| "handle (KeyDown code) g =
     (let g1 = g\<lparr>keys := (keys g)(code \<mapsto> True)\<rparr>
      in if code = ''Space'' \<and> gameState g1 = Playing then Inr (jump g1) else Inr g1)"
| "handle (KeyUp code) g = Inr (g\<lparr>keys := (keys g)(code \<mapsto> False)\<rparr>)"
| "handle (TouchStart currentTime) g =
     (if currentTime - touchStartTime g < touchCooldown g then Inr g
      else (let g1 = g\<lparr>touchStartTime := currentTime\<rparr>
            in if gameState g1 = Playing then Inr (jump g1) else Inr g1))"
| "handle ClickStart g = Inr (startGame g)"
| "handle ClickRestart g = Inr (restartGame g)"
| "handle (Resize containerWidth containerHeight) g =
     Inr (resizeCanvas containerWidth containerHeight g)"

fun run :: "event list \<Rightarrow> game \<Rightarrow> error + game" where
  "run [] g = Inr g"
| "run (e # es) g = (case handle e g of Inl err \<Rightarrow> Inl err | Inr g' \<Rightarrow> run es g')"

section \<open>Properties\<close>

subsection \<open>Auxiliary notions and sample states\<close>

text \<open>The state that an outcome of the obstacle loop carries, and whether it returned.\<close>

fun stateOf :: "flow \<Rightarrow> game" where
  "stateOf (Continue g) = g"
| "stateOf (Return g) = g"

fun returned :: "flow \<Rightarrow> bool" where
  "returned (Continue g) = False"
| "returned (Return g) = True"

text \<open>\<open>Math.random()\<close> returns numbers of \<open>[0, 1)\<close>.\<close>

definition unitRandom :: "game \<Rightarrow> bool" where
  "unitRandom g = (\<forall>n. 0 \<le> randomSource g n \<and> randomSource g n < 1)"

text \<open>
  A fresh session in an 800 by 600 container, started; every random draw is \<open>1/2\<close>, so
  nothing is spawned.
\<close>

definition idleSession :: game where
  "idleSession = startGame (constructor 800 600 (\<lambda>n. 1 / 2))"

text \<open>
  The player stands on the ground of an 800 by 600 session and a block of the lowest
  spawn height (top at \<open>gameHeight - 120\<close>) overlaps its right half once scrolled.
\<close>

definition sideHit :: game where
  "sideHit =
     idleSession
       \<lparr>player := \<lparr>px = 100, py = 510, pwidth = 40, pheight = 40, velocityY = 0,
                   isGrounded = True, rotation = 0, pcolor = ''#00ff88''\<rparr>,
        obstacles := [\<lparr>ox = 128, oy = 480, owidth = 40, oheight = 60, otype = Block,
                       ocolor = ''#ffaa00''\<rparr>],
        cameraX := 8\<rparr>"

text \<open>
  The words of the landing rule, stated on the fields: the screen rectangles of player and
  block overlap horizontally; the player's bottom edge lies in
  \<open>[block.y, block.y + block.height + 5]\<close>; the vertical velocity is not negative. And the
  overlap of the two screen rectangles.
\<close>

definition overlapsHorizontally :: "obstacle \<Rightarrow> game \<Rightarrow> bool" where
  "overlapsHorizontally b g =
     (px (player g) < ox b - cameraX g + owidth b \<and>
      ox b - cameraX g < px (player g) + pwidth (player g))"

definition landingCondition :: "obstacle \<Rightarrow> game \<Rightarrow> bool" where
  "landingCondition b g =
     (overlapsHorizontally b g \<and>
      oy b \<le> py (player g) + pheight (player g) \<and>
      py (player g) + pheight (player g) \<le> oy b + oheight b + 5 \<and>
      0 \<le> velocityY (player g))"

definition rectanglesOverlap :: "obstacle \<Rightarrow> game \<Rightarrow> bool" where
  "rectanglesOverlap b g =
     (overlapsHorizontally b g \<and>
      py (player g) < oy b + oheight b \<and> oy b < py (player g) + pheight (player g))"

text \<open>
  The player falls at velocity 3 with its bottom edge 10 below the top of a block that it
  overlaps: the landing condition holds and the rectangles overlap as well.
\<close>

definition fallingOnBlock :: game where
  "fallingOnBlock =
     idleSession
       \<lparr>player := \<lparr>px = 100, py = 450, pwidth = 40, pheight = 40, velocityY = 3,
                   isGrounded = False, rotation = 0, pcolor = ''#00ff88''\<rparr>,
        obstacles := [\<lparr>ox = 120, oy = 480, owidth = 40, oheight = 60, otype = Block,
                       ocolor = ''#ffaa00''\<rparr>]\<rparr>"

text \<open>
  A session at camera offset 300 and speed 5 with a spike and a platform whose right edges
  drop behind the camera on the next scroll, and a block and a platform further ahead.
\<close>

definition cullSample :: game where
  "cullSample =
     idleSession
       \<lparr>cameraX := 300, score := 70,
        obstacles := [\<lparr>ox = 262, oy = 520, owidth = 40, oheight = 40, otype = Spike,
                       ocolor = ''#ff4444''\<rparr>,
                      \<lparr>ox = 700, oy = 480, owidth = 40, oheight = 60, otype = Block,
                       ocolor = ''#ffaa00''\<rparr>],
        platforms := [\<lparr>fx = 200, fy = 450, fwidth = 80, fheight = 20, fcolor = ''#00aaff''\<rparr>,
                      \<lparr>fx = 900, fy = 400, fwidth = 120, fheight = 20, fcolor = ''#00aaff''\<rparr>]\<rparr>"

text \<open>
  A session at camera offset 300 whose next random draws are 0, 0, 0 and 3/4: a spawn, of
  type spike, at the first position, in the double pattern.
\<close>

definition doubleDraws :: "nat \<Rightarrow> real" where
  "doubleDraws n = (if n = 3 then 3 / 4 else 0)"

definition spawnDouble :: game where
  "spawnDouble = (startGame (constructor 800 600 doubleDraws))\<lparr>cameraX := 300\<rparr>"

text \<open>Every spike in the obstacle list is 40 wide and 40 high.\<close>

definition spikesWellFormed :: "game \<Rightarrow> bool" where
  "spikesWellFormed g =
     list_all (\<lambda>b. otype b = Spike \<longrightarrow> owidth b = 40 \<and> oheight b = 40) (obstacles g)"

text \<open>
  The history of autoplay jumps is in order: every entry was made with the grounded flag
  set, any later entry is at least the cooldown after any earlier one, and no entry is
  later than \<open>lastAutoJumpTime\<close>.
\<close>

definition autoJumpsSpaced :: "game \<Rightarrow> bool" where
  "autoJumpsSpaced g =
     (0 \<le> autoJumpCooldown g \<and>
      list_all snd (autoJumpLog g) \<and>
      sorted_wrt (\<lambda>a b. autoJumpCooldown g \<le> b - a) (map fst (autoJumpLog g)) \<and>
      list_all (\<lambda>a. a \<le> lastAutoJumpTime g) (map fst (autoJumpLog g)))"

text \<open>
  A run with the A key held: the player is put near the ground by a resize, lands on the
  fifth frame and autoplay jumps (clock 1000); after a restart it lands again at clock
  1080, inside the cooldown, and autoplay jumps only at clock 1800. The states on the way
  are \<open>heldA\<close> (after the resize), \<open>preJump\<close> (before the frame of the first jump),
  \<open>restarted\<close>, \<open>preLand\<close> and \<open>landed\<close> (after the frame at clock 1080).
\<close>

definition autoplayRun :: "event list" where
  "autoplayRun =
     [ClickStart, KeyDown ''KeyA'', Resize 800 600]
     @ [Frame 936, Frame 952, Frame 968, Frame 984]
     @ [Frame 1000, ClickRestart]
     @ [Frame 1016, Frame 1032, Frame 1048, Frame 1064]
     @ [Frame 1080]
     @ [Frame 1800]"

definition heldA :: game where
  "heldA =
     resizeCanvas 800 600 ((startGame (constructor 800 600 (\<lambda>n. 1 / 2)))
       \<lparr>keys := [''KeyA'' \<mapsto> True]\<rparr>)"

definition preJump :: game where
  "preJump =
     heldA\<lparr>autoMode := True, randomCount := 4, cameraX := 10003 / 500, distance := 2,
       gameSpeed := 1251 / 250,
       player := \<lparr>px = 100, py = 508, pwidth = 40, pheight = 40, velocityY = 16 / 5,
                   isGrounded = False, rotation = 4 / 5, pcolor = ''#00ff88''\<rparr>\<rparr>"

definition restarted :: game where
  "restarted =
     heldA\<lparr>autoMode := True, randomCount := 29, lastAutoJumpTime := 1000,
       autoJumpLog := [(1000, True)],
       player := \<lparr>px = 100, py = 500, pwidth = 40, pheight = 40, velocityY = 0,
                   isGrounded = False, rotation = 0, pcolor = ''#00ff88''\<rparr>\<rparr>"

definition preLand :: game where
  "preLand =
     restarted\<lparr>randomCount := 33, cameraX := 10003 / 500, distance := 2,
       gameSpeed := 1251 / 250,
       player := \<lparr>px = 100, py = 508, pwidth = 40, pheight = 40, velocityY = 16 / 5,
                   isGrounded = False, rotation = 4 / 5, pcolor = ''#00ff88''\<rparr>\<rparr>"

definition landed :: game where
  "landed =
     preLand\<lparr>randomCount := 34, cameraX := 2501 / 100, gameSpeed := 1001 / 200,
       player := \<lparr>px = 100, py = 510, pwidth = 40, pheight = 40, velocityY = 0,
                   isGrounded = True, rotation = 1, pcolor = ''#00ff88''\<rparr>\<rparr>"

text \<open>
  A short run that ends in GameOver, in a container 150 wide: the first frame spawns a
  single spike on the ground at the right edge, which reaches the player on the third
  frame.
\<close>

definition crashDraws :: "nat \<Rightarrow> real" where
  "crashDraws n = (if n < 4 then 0 else 1 / 2)"

definition crashRun :: "event list" where
  "crashRun = [ClickStart, Resize 150 600, Frame 0, Frame 16, Frame 33]"

text \<open>
  A session in a 160 by 600 container, in the order a browser delivers the events: start,
  a first frame (which spawns a single ground spike), a resize that leaves the size as it
  is, and three more frames. \<open>beforeLethal\<close> is the state before the last frame, on which
  the spike reaches the player.
\<close>

definition lethalRun :: "event list" where
  "lethalRun = [ClickStart, Frame 0, Resize 160 600, Frame 16, Frame 33]"

definition beforeLethal :: game where
  "beforeLethal =
     (constructor 160 600 crashDraws)
       \<lparr>gameState := Playing, distance := 1, gameSpeed := 5003 / 1000,
        cameraX := 15003 / 1000, randomCount := 6,
        player := \<lparr>px = 100, py = 504, pwidth = 40, pheight = 40, velocityY = 12 / 5,
                    isGrounded = False, rotation = 3 / 5, pcolor = ''#00ff88''\<rparr>,
        obstacles := [newSpike (144997 / 1000) 520]\<rparr>"

text \<open>
  A fresh session in a 325 by 610 container with the A key held from the second frame on,
  over 33 frames at clocks 1000, 1016, ..., 1512. The seventh frame spawns a block (top at
  490), the twelfth a single ground spike; nothing else is spawned. The player falls from
  y = 0. \<open>airRun\<close> is the run up to the frame at clock 1496, \<open>fallen8\<close> to \<open>fallen32\<close>
  are the states after 8, 16, 24 and 32 frames, and \<open>midAir\<close> is the state in which the
  frame at clock 1512 calls \<open>autoJump\<close>.
\<close>

definition airDraws :: "nat \<Rightarrow> real" where
  "airDraws n = (if n \<in> {6, 8, 13, 14, 15, 16} then 0 else 1 / 2)"

definition airRun :: "event list" where
  "airRun =
     [ClickStart, Frame 1000, KeyDown ''KeyA'', Frame 1016, Frame 1032, Frame 1048,
      Frame 1064, Frame 1080, Frame 1096, Frame 1112]
     @ [Frame 1128, Frame 1144, Frame 1160, Frame 1176, Frame 1192, Frame 1208,
      Frame 1224, Frame 1240]
     @ [Frame 1256, Frame 1272, Frame 1288, Frame 1304, Frame 1320, Frame 1336,
      Frame 1352, Frame 1368]
     @ [Frame 1384, Frame 1400, Frame 1416, Frame 1432, Frame 1448, Frame 1464,
      Frame 1480, Frame 1496]"

definition airBase :: game where
  "airBase =
     (startGame (constructor 325 610 airDraws))
       \<lparr>keys := [''KeyA'' \<mapsto> True], autoMode := True\<rparr>"

definition fallen8 :: game where
  "fallen8 =
     airBase\<lparr>randomCount := 10, cameraX := 10007 / 250, distance := 4,
       gameSpeed := 626 / 125,
       player := \<lparr>px = 100, py = 144 / 5, pwidth = 40, pheight = 40, velocityY = 32 / 5,
                   isGrounded = False, rotation = 8 / 5, pcolor = ''#00ff88''\<rparr>,
       obstacles := [\<lparr>ox = 172501 / 500, oy = 490, owidth = 40, oheight = 60, otype = Block,
                      ocolor = ''#ffaa00''\<rparr>]\<rparr>"

definition fallen16 :: game where
  "fallen16 =
     airBase\<lparr>randomCount := 21, cameraX := 2003 / 25, distance := 8,
       gameSpeed := 627 / 125,
       player := \<lparr>px = 100, py = 544 / 5, pwidth = 40, pheight = 40, velocityY = 64 / 5,
                   isGrounded = False, rotation = 16 / 5, pcolor = ''#00ff88''\<rparr>,
       obstacles := [\<lparr>ox = 30491 / 100, oy = 490, owidth = 40, oheight = 60, otype = Block,
                      ocolor = ''#ffaa00''\<rparr>,
                     \<lparr>ox = 35499 / 100, oy = 530, owidth = 40, oheight = 40, otype = Spike,
                      ocolor = ''#ff4444''\<rparr>]\<rparr>"

definition fallen24 :: game where
  "fallen24 =
     airBase\<lparr>randomCount := 29, cameraX := 30069 / 250, distance := 12,
       gameSpeed := 628 / 125,
       player := \<lparr>px = 100, py = 240, pwidth = 40, pheight = 40, velocityY = 96 / 5,
                   isGrounded = False, rotation = 24 / 5, pcolor = ''#00ff88''\<rparr>,
       obstacles := [\<lparr>ox = 132377 / 500, oy = 490, owidth = 40, oheight = 60, otype = Block,
                      ocolor = ''#ffaa00''\<rparr>,
                     \<lparr>ox = 157417 / 500, oy = 530, owidth = 40, oheight = 40, otype = Spike,
                      ocolor = ''#ff4444''\<rparr>]\<rparr>"

definition fallen32 :: game where
  "fallen32 =
     airBase\<lparr>randomCount := 37, cameraX := 20062 / 125, distance := 16,
       gameSpeed := 629 / 125,
       player := \<lparr>px = 100, py = 2112 / 5, pwidth = 40, pheight = 40, velocityY = 128 / 5,
                   isGrounded = False, rotation = 32 / 5, pcolor = ''#00ff88''\<rparr>,
       obstacles := [\<lparr>ox = 112267 / 500, oy = 490, owidth = 40, oheight = 60, otype = Block,
                      ocolor = ''#ffaa00''\<rparr>,
                     \<lparr>ox = 137307 / 500, oy = 530, owidth = 40, oheight = 40, otype = Spike,
                      ocolor = ''#ff4444''\<rparr>]\<rparr>"

definition midAir :: game where
  "midAir =
     airBase\<lparr>randomCount := 38, cameraX := 20691 / 125, distance := 16,
       gameSpeed := 5033 / 1000,
       player := \<lparr>px = 100, py = 2244 / 5, pwidth = 40, pheight = 40, velocityY = 132 / 5,
                   isGrounded = True, rotation = 33 / 5, pcolor = ''#00ff88''\<rparr>,
       obstacles := [\<lparr>ox = 109751 / 500, oy = 490, owidth = 40, oheight = 60, otype = Block,
                      ocolor = ''#ffaa00''\<rparr>,
                     \<lparr>ox = 134791 / 500, oy = 530, owidth = 40, oheight = 40, otype = Spike,
                      ocolor = ''#ff4444''\<rparr>]\<rparr>"

subsection \<open>What each step leaves unchanged\<close>

lemma Math_random_frame [simp]:
  "gameSpeed (snd (Math_random g)) = gameSpeed g"
  "cameraX (snd (Math_random g)) = cameraX g"
  "distance (snd (Math_random g)) = distance g"
  "gameState (snd (Math_random g)) = gameState g"
  "gameHeight (snd (Math_random g)) = gameHeight g"
  "gameWidth (snd (Math_random g)) = gameWidth g"
  "player (snd (Math_random g)) = player g"
  "obstacles (snd (Math_random g)) = obstacles g"
  "platforms (snd (Math_random g)) = platforms g"
  "score (snd (Math_random g)) = score g"
  "lastAutoJumpTime (snd (Math_random g)) = lastAutoJumpTime g"
  "autoJumpCooldown (snd (Math_random g)) = autoJumpCooldown g"
  "autoJumpLog (snd (Math_random g)) = autoJumpLog g"
  "autoMode (snd (Math_random g)) = autoMode g"
  "keys (snd (Math_random g)) = keys g"
  "gravity (snd (Math_random g)) = gravity g"
  "jumpForce (snd (Math_random g)) = jumpForce g"
  "randomSource (snd (Math_random g)) = randomSource g"
  by (simp_all add: Math_random_def)

lemma addParticlesLoop_frame [simp]:
  "gameSpeed (addParticlesLoop n x y c g) = gameSpeed g"
  "cameraX (addParticlesLoop n x y c g) = cameraX g"
  "distance (addParticlesLoop n x y c g) = distance g"
  "gameState (addParticlesLoop n x y c g) = gameState g"
  "gameHeight (addParticlesLoop n x y c g) = gameHeight g"
  "gameWidth (addParticlesLoop n x y c g) = gameWidth g"
  "player (addParticlesLoop n x y c g) = player g"
  "obstacles (addParticlesLoop n x y c g) = obstacles g"
  "platforms (addParticlesLoop n x y c g) = platforms g"
  "score (addParticlesLoop n x y c g) = score g"
  "lastAutoJumpTime (addParticlesLoop n x y c g) = lastAutoJumpTime g"
  "autoJumpCooldown (addParticlesLoop n x y c g) = autoJumpCooldown g"
  "autoJumpLog (addParticlesLoop n x y c g) = autoJumpLog g"
  "autoMode (addParticlesLoop n x y c g) = autoMode g"
  "keys (addParticlesLoop n x y c g) = keys g"
  "gravity (addParticlesLoop n x y c g) = gravity g"
  "jumpForce (addParticlesLoop n x y c g) = jumpForce g"
  "randomSource (addParticlesLoop n x y c g) = randomSource g"
  by (induction n arbitrary: g; simp add: split_def Let_def)+

lemma addParticles_frame [simp]:
  "gameSpeed (addParticles x y c g) = gameSpeed g"
  "cameraX (addParticles x y c g) = cameraX g"
  "distance (addParticles x y c g) = distance g"
  "gameState (addParticles x y c g) = gameState g"
  "gameHeight (addParticles x y c g) = gameHeight g"
  "gameWidth (addParticles x y c g) = gameWidth g"
  "player (addParticles x y c g) = player g"
  "obstacles (addParticles x y c g) = obstacles g"
  "platforms (addParticles x y c g) = platforms g"
  "score (addParticles x y c g) = score g"
  "lastAutoJumpTime (addParticles x y c g) = lastAutoJumpTime g"
  "autoJumpCooldown (addParticles x y c g) = autoJumpCooldown g"
  "autoJumpLog (addParticles x y c g) = autoJumpLog g"
  "autoMode (addParticles x y c g) = autoMode g"
  "keys (addParticles x y c g) = keys g"
  "gravity (addParticles x y c g) = gravity g"
  "jumpForce (addParticles x y c g) = jumpForce g"
  "randomSource (addParticles x y c g) = randomSource g"
  by (simp_all add: addParticles_def)

lemma jump_frame [simp]:
  "gameSpeed (jump g) = gameSpeed g"
  "cameraX (jump g) = cameraX g"
  "distance (jump g) = distance g"
  "gameState (jump g) = gameState g"
  "gameHeight (jump g) = gameHeight g"
  "gameWidth (jump g) = gameWidth g"
  "obstacles (jump g) = obstacles g"
  "platforms (jump g) = platforms g"
  "score (jump g) = score g"
  "lastAutoJumpTime (jump g) = lastAutoJumpTime g"
  "autoJumpCooldown (jump g) = autoJumpCooldown g"
  "autoJumpLog (jump g) = autoJumpLog g"
  "autoMode (jump g) = autoMode g"
  "keys (jump g) = keys g"
  "gravity (jump g) = gravity g"
  "jumpForce (jump g) = jumpForce g"
  "randomSource (jump g) = randomSource g"
  by (simp_all add: jump_def Let_def)

lemma jump_player_box [simp]:
  "px (player (jump g)) = px (player g)"
  "py (player (jump g)) = py (player g)"
  "pwidth (player (jump g)) = pwidth (player g)"
  "pheight (player (jump g)) = pheight (player g)"
  by (simp_all add: jump_def Let_def)

lemma landOn_frame [simp]:
  "gameSpeed (landOn t c g) = gameSpeed g"
  "cameraX (landOn t c g) = cameraX g"
  "distance (landOn t c g) = distance g"
  "gameState (landOn t c g) = gameState g"
  "gameHeight (landOn t c g) = gameHeight g"
  "gameWidth (landOn t c g) = gameWidth g"
  "obstacles (landOn t c g) = obstacles g"
  "platforms (landOn t c g) = platforms g"
  "score (landOn t c g) = score g"
  "lastAutoJumpTime (landOn t c g) = lastAutoJumpTime g"
  "autoJumpCooldown (landOn t c g) = autoJumpCooldown g"
  "autoJumpLog (landOn t c g) = autoJumpLog g"
  "autoMode (landOn t c g) = autoMode g"
  "keys (landOn t c g) = keys g"
  "gravity (landOn t c g) = gravity g"
  "jumpForce (landOn t c g) = jumpForce g"
  "randomSource (landOn t c g) = randomSource g"
  by (simp_all add: landOn_def Let_def)

lemma landOn_player [simp]:
  "px (player (landOn t c g)) = px (player g)"
  "py (player (landOn t c g)) = t - pheight (player g)"
  "pwidth (player (landOn t c g)) = pwidth (player g)"
  "pheight (player (landOn t c g)) = pheight (player g)"
  "velocityY (player (landOn t c g)) = 0"
  "isGrounded (player (landOn t c g)) = isGrounded (player g)"
  by (simp_all add: landOn_def Let_def)

lemma gameOver_frame [simp]:
  "gameSpeed (gameOver g) = gameSpeed g"
  "cameraX (gameOver g) = cameraX g"
  "distance (gameOver g) = distance g"
  "gameHeight (gameOver g) = gameHeight g"
  "gameWidth (gameOver g) = gameWidth g"
  "player (gameOver g) = player g"
  "obstacles (gameOver g) = obstacles g"
  "platforms (gameOver g) = platforms g"
  "score (gameOver g) = score g"
  "lastAutoJumpTime (gameOver g) = lastAutoJumpTime g"
  "autoJumpCooldown (gameOver g) = autoJumpCooldown g"
  "autoJumpLog (gameOver g) = autoJumpLog g"
  "autoMode (gameOver g) = autoMode g"
  "keys (gameOver g) = keys g"
  "gravity (gameOver g) = gravity g"
  "jumpForce (gameOver g) = jumpForce g"
  "randomSource (gameOver g) = randomSource g"
  by (simp_all add: gameOver_def)

lemma updateCamera_frame [simp]:
  "gameState (updateCamera g) = gameState g"
  "gameHeight (updateCamera g) = gameHeight g"
  "gameWidth (updateCamera g) = gameWidth g"
  "player (updateCamera g) = player g"
  "obstacles (updateCamera g) = obstacles g"
  "platforms (updateCamera g) = platforms g"
  "score (updateCamera g) = score g"
  "lastAutoJumpTime (updateCamera g) = lastAutoJumpTime g"
  "autoJumpCooldown (updateCamera g) = autoJumpCooldown g"
  "autoJumpLog (updateCamera g) = autoJumpLog g"
  "autoMode (updateCamera g) = autoMode g"
  "keys (updateCamera g) = keys g"
  "gravity (updateCamera g) = gravity g"
  "jumpForce (updateCamera g) = jumpForce g"
  "randomSource (updateCamera g) = randomSource g"
  by (simp_all add: updateCamera_def Let_def)

lemma updatePlayer_frame [simp]:
  "gameSpeed (updatePlayer g) = gameSpeed g"
  "cameraX (updatePlayer g) = cameraX g"
  "distance (updatePlayer g) = distance g"
  "gameState (updatePlayer g) = gameState g"
  "gameHeight (updatePlayer g) = gameHeight g"
  "gameWidth (updatePlayer g) = gameWidth g"
  "obstacles (updatePlayer g) = obstacles g"
  "platforms (updatePlayer g) = platforms g"
  "score (updatePlayer g) = score g"
  "lastAutoJumpTime (updatePlayer g) = lastAutoJumpTime g"
  "autoJumpCooldown (updatePlayer g) = autoJumpCooldown g"
  "autoJumpLog (updatePlayer g) = autoJumpLog g"
  "autoMode (updatePlayer g) = autoMode g"
  "keys (updatePlayer g) = keys g"
  "gravity (updatePlayer g) = gravity g"
  "jumpForce (updatePlayer g) = jumpForce g"
  "randomSource (updatePlayer g) = randomSource g"
  by (simp_all add: updatePlayer_def Let_def)

lemma checkObstacle_frame [simp]:
  "gameSpeed (stateOf (checkObstacle ob g)) = gameSpeed g"
  "cameraX (stateOf (checkObstacle ob g)) = cameraX g"
  "distance (stateOf (checkObstacle ob g)) = distance g"
  "gameHeight (stateOf (checkObstacle ob g)) = gameHeight g"
  "gameWidth (stateOf (checkObstacle ob g)) = gameWidth g"
  "obstacles (stateOf (checkObstacle ob g)) = obstacles g"
  "platforms (stateOf (checkObstacle ob g)) = platforms g"
  "score (stateOf (checkObstacle ob g)) = score g"
  "lastAutoJumpTime (stateOf (checkObstacle ob g)) = lastAutoJumpTime g"
  "autoJumpCooldown (stateOf (checkObstacle ob g)) = autoJumpCooldown g"
  "autoJumpLog (stateOf (checkObstacle ob g)) = autoJumpLog g"
  "autoMode (stateOf (checkObstacle ob g)) = autoMode g"
  "keys (stateOf (checkObstacle ob g)) = keys g"
  "gravity (stateOf (checkObstacle ob g)) = gravity g"
  "jumpForce (stateOf (checkObstacle ob g)) = jumpForce g"
  "randomSource (stateOf (checkObstacle ob g)) = randomSource g"
  by (simp_all add: checkObstacle_def)

lemma checkObstacles_frame [simp]:
  "gameSpeed (stateOf (checkObstacles obs g)) = gameSpeed g"
  "cameraX (stateOf (checkObstacles obs g)) = cameraX g"
  "distance (stateOf (checkObstacles obs g)) = distance g"
  "gameHeight (stateOf (checkObstacles obs g)) = gameHeight g"
  "gameWidth (stateOf (checkObstacles obs g)) = gameWidth g"
  "obstacles (stateOf (checkObstacles obs g)) = obstacles g"
  "platforms (stateOf (checkObstacles obs g)) = platforms g"
  "score (stateOf (checkObstacles obs g)) = score g"
  "lastAutoJumpTime (stateOf (checkObstacles obs g)) = lastAutoJumpTime g"
  "autoJumpCooldown (stateOf (checkObstacles obs g)) = autoJumpCooldown g"
  "autoJumpLog (stateOf (checkObstacles obs g)) = autoJumpLog g"
  "autoMode (stateOf (checkObstacles obs g)) = autoMode g"
  "keys (stateOf (checkObstacles obs g)) = keys g"
  "gravity (stateOf (checkObstacles obs g)) = gravity g"
  "jumpForce (stateOf (checkObstacles obs g)) = jumpForce g"
  "randomSource (stateOf (checkObstacles obs g)) = randomSource g"
  by (induction obs arbitrary: g; simp split: flow.split; metis checkObstacle_frame stateOf.simps)+

lemma checkPlatforms_frame [simp]:
  "gameSpeed (checkPlatforms ps g) = gameSpeed g"
  "cameraX (checkPlatforms ps g) = cameraX g"
  "distance (checkPlatforms ps g) = distance g"
  "gameState (checkPlatforms ps g) = gameState g"
  "gameHeight (checkPlatforms ps g) = gameHeight g"
  "gameWidth (checkPlatforms ps g) = gameWidth g"
  "obstacles (checkPlatforms ps g) = obstacles g"
  "platforms (checkPlatforms ps g) = platforms g"
  "score (checkPlatforms ps g) = score g"
  "lastAutoJumpTime (checkPlatforms ps g) = lastAutoJumpTime g"
  "autoJumpCooldown (checkPlatforms ps g) = autoJumpCooldown g"
  "autoJumpLog (checkPlatforms ps g) = autoJumpLog g"
  "autoMode (checkPlatforms ps g) = autoMode g"
  "keys (checkPlatforms ps g) = keys g"
  "gravity (checkPlatforms ps g) = gravity g"
  "jumpForce (checkPlatforms ps g) = jumpForce g"
  "randomSource (checkPlatforms ps g) = randomSource g"
  by (induction ps arbitrary: g; simp)+

lemma checkCollisions_frame [simp]:
  "gameSpeed (checkCollisions g) = gameSpeed g"
  "cameraX (checkCollisions g) = cameraX g"
  "distance (checkCollisions g) = distance g"
  "gameHeight (checkCollisions g) = gameHeight g"
  "gameWidth (checkCollisions g) = gameWidth g"
  "obstacles (checkCollisions g) = obstacles g"
  "platforms (checkCollisions g) = platforms g"
  "score (checkCollisions g) = score g"
  "lastAutoJumpTime (checkCollisions g) = lastAutoJumpTime g"
  "autoJumpCooldown (checkCollisions g) = autoJumpCooldown g"
  "autoJumpLog (checkCollisions g) = autoJumpLog g"
  "autoMode (checkCollisions g) = autoMode g"
  "keys (checkCollisions g) = keys g"
  "gravity (checkCollisions g) = gravity g"
  "jumpForce (checkCollisions g) = jumpForce g"
  "randomSource (checkCollisions g) = randomSource g"
  by (simp_all add: checkCollisions_def split: flow.split; metis checkObstacles_frame stateOf.simps)+

lemma updateObstaclesLoop_frame [simp]:
  "gameSpeed (updateObstaclesLoop i g) = gameSpeed g"
  "cameraX (updateObstaclesLoop i g) = cameraX g"
  "distance (updateObstaclesLoop i g) = distance g"
  "gameState (updateObstaclesLoop i g) = gameState g"
  "gameHeight (updateObstaclesLoop i g) = gameHeight g"
  "gameWidth (updateObstaclesLoop i g) = gameWidth g"
  "player (updateObstaclesLoop i g) = player g"
  "platforms (updateObstaclesLoop i g) = platforms g"
  "lastAutoJumpTime (updateObstaclesLoop i g) = lastAutoJumpTime g"
  "autoJumpCooldown (updateObstaclesLoop i g) = autoJumpCooldown g"
  "autoJumpLog (updateObstaclesLoop i g) = autoJumpLog g"
  "autoMode (updateObstaclesLoop i g) = autoMode g"
  "keys (updateObstaclesLoop i g) = keys g"
  "gravity (updateObstaclesLoop i g) = gravity g"
  "jumpForce (updateObstaclesLoop i g) = jumpForce g"
  "randomSource (updateObstaclesLoop i g) = randomSource g"
  by (induction i arbitrary: g; simp add: Let_def)+

lemma updatePlatformsLoop_frame [simp]:
  "gameSpeed (updatePlatformsLoop i g) = gameSpeed g"
  "cameraX (updatePlatformsLoop i g) = cameraX g"
  "distance (updatePlatformsLoop i g) = distance g"
  "gameState (updatePlatformsLoop i g) = gameState g"
  "gameHeight (updatePlatformsLoop i g) = gameHeight g"
  "gameWidth (updatePlatformsLoop i g) = gameWidth g"
  "player (updatePlatformsLoop i g) = player g"
  "obstacles (updatePlatformsLoop i g) = obstacles g"
  "score (updatePlatformsLoop i g) = score g"
  "lastAutoJumpTime (updatePlatformsLoop i g) = lastAutoJumpTime g"
  "autoJumpCooldown (updatePlatformsLoop i g) = autoJumpCooldown g"
  "autoJumpLog (updatePlatformsLoop i g) = autoJumpLog g"
  "autoMode (updatePlatformsLoop i g) = autoMode g"
  "keys (updatePlatformsLoop i g) = keys g"
  "gravity (updatePlatformsLoop i g) = gravity g"
  "jumpForce (updatePlatformsLoop i g) = jumpForce g"
  "randomSource (updatePlatformsLoop i g) = randomSource g"
  by (induction i arbitrary: g; simp add: Let_def)+

lemma updateObstacles_frame [simp]:
  "gameSpeed (updateObstacles g) = gameSpeed g"
  "cameraX (updateObstacles g) = cameraX g"
  "distance (updateObstacles g) = distance g"
  "gameState (updateObstacles g) = gameState g"
  "gameHeight (updateObstacles g) = gameHeight g"
  "gameWidth (updateObstacles g) = gameWidth g"
  "player (updateObstacles g) = player g"
  "lastAutoJumpTime (updateObstacles g) = lastAutoJumpTime g"
  "autoJumpCooldown (updateObstacles g) = autoJumpCooldown g"
  "autoJumpLog (updateObstacles g) = autoJumpLog g"
  "autoMode (updateObstacles g) = autoMode g"
  "keys (updateObstacles g) = keys g"
  "gravity (updateObstacles g) = gravity g"
  "jumpForce (updateObstacles g) = jumpForce g"
  "randomSource (updateObstacles g) = randomSource g"
  by (simp_all add: updateObstacles_def Let_def)

lemma updateParticlesLoop_frame [simp]:
  "gameSpeed (updateParticlesLoop i g) = gameSpeed g"
  "cameraX (updateParticlesLoop i g) = cameraX g"
  "distance (updateParticlesLoop i g) = distance g"
  "gameState (updateParticlesLoop i g) = gameState g"
  "gameHeight (updateParticlesLoop i g) = gameHeight g"
  "gameWidth (updateParticlesLoop i g) = gameWidth g"
  "player (updateParticlesLoop i g) = player g"
  "obstacles (updateParticlesLoop i g) = obstacles g"
  "platforms (updateParticlesLoop i g) = platforms g"
  "score (updateParticlesLoop i g) = score g"
  "lastAutoJumpTime (updateParticlesLoop i g) = lastAutoJumpTime g"
  "autoJumpCooldown (updateParticlesLoop i g) = autoJumpCooldown g"
  "autoJumpLog (updateParticlesLoop i g) = autoJumpLog g"
  "autoMode (updateParticlesLoop i g) = autoMode g"
  "keys (updateParticlesLoop i g) = keys g"
  "gravity (updateParticlesLoop i g) = gravity g"
  "jumpForce (updateParticlesLoop i g) = jumpForce g"
  "randomSource (updateParticlesLoop i g) = randomSource g"
  by (induction i arbitrary: g; simp add: Let_def)+

lemma updateParticles_frame [simp]:
  "gameSpeed (updateParticles g) = gameSpeed g"
  "cameraX (updateParticles g) = cameraX g"
  "distance (updateParticles g) = distance g"
  "gameState (updateParticles g) = gameState g"
  "gameHeight (updateParticles g) = gameHeight g"
  "gameWidth (updateParticles g) = gameWidth g"
  "player (updateParticles g) = player g"
  "obstacles (updateParticles g) = obstacles g"
  "platforms (updateParticles g) = platforms g"
  "score (updateParticles g) = score g"
  "lastAutoJumpTime (updateParticles g) = lastAutoJumpTime g"
  "autoJumpCooldown (updateParticles g) = autoJumpCooldown g"
  "autoJumpLog (updateParticles g) = autoJumpLog g"
  "autoMode (updateParticles g) = autoMode g"
  "keys (updateParticles g) = keys g"
  "gravity (updateParticles g) = gravity g"
  "jumpForce (updateParticles g) = jumpForce g"
  "randomSource (updateParticles g) = randomSource g"
  by (simp_all add: updateParticles_def)

lemma generateSpike_frame:
  assumes "generateSpike g = Inr g'"
  shows "gameSpeed g' = gameSpeed g"
    and "cameraX g' = cameraX g"
    and "distance g' = distance g"
    and "gameState g' = gameState g"
    and "gameHeight g' = gameHeight g"
    and "gameWidth g' = gameWidth g"
    and "player g' = player g"
    and "platforms g' = platforms g"
    and "score g' = score g"
    and "lastAutoJumpTime g' = lastAutoJumpTime g"
    and "autoJumpCooldown g' = autoJumpCooldown g"
    and "autoJumpLog g' = autoJumpLog g"
    and "autoMode g' = autoMode g"
    and "keys g' = keys g"
    and "gravity g' = gravity g"
    and "jumpForce g' = jumpForce g"
    and "randomSource g' = randomSource g"
  using assms by (auto simp: generateSpike_def Let_def split_def split: option.splits if_splits featureType.splits)

lemma generateBlock_frame:
  assumes "generateBlock g = Inr g'"
  shows "gameSpeed g' = gameSpeed g"
    and "cameraX g' = cameraX g"
    and "distance g' = distance g"
    and "gameState g' = gameState g"
    and "gameHeight g' = gameHeight g"
    and "gameWidth g' = gameWidth g"
    and "player g' = player g"
    and "platforms g' = platforms g"
    and "score g' = score g"
    and "lastAutoJumpTime g' = lastAutoJumpTime g"
    and "autoJumpCooldown g' = autoJumpCooldown g"
    and "autoJumpLog g' = autoJumpLog g"
    and "autoMode g' = autoMode g"
    and "keys g' = keys g"
    and "gravity g' = gravity g"
    and "jumpForce g' = jumpForce g"
    and "randomSource g' = randomSource g"
  using assms by (auto simp: generateBlock_def Let_def split_def split: option.splits if_splits featureType.splits)

lemma generatePlatform_frame:
  assumes "generatePlatform g = Inr g'"
  shows "gameSpeed g' = gameSpeed g"
    and "cameraX g' = cameraX g"
    and "distance g' = distance g"
    and "gameState g' = gameState g"
    and "gameHeight g' = gameHeight g"
    and "gameWidth g' = gameWidth g"
    and "player g' = player g"
    and "obstacles g' = obstacles g"
    and "score g' = score g"
    and "lastAutoJumpTime g' = lastAutoJumpTime g"
    and "autoJumpCooldown g' = autoJumpCooldown g"
    and "autoJumpLog g' = autoJumpLog g"
    and "autoMode g' = autoMode g"
    and "keys g' = keys g"
    and "gravity g' = gravity g"
    and "jumpForce g' = jumpForce g"
    and "randomSource g' = randomSource g"
  using assms by (auto simp: generatePlatform_def Let_def split_def split: option.splits if_splits featureType.splits)

lemma generateObstacles_frame:
  assumes "generateObstacles g = Inr g'"
  shows "gameSpeed g' = gameSpeed g"
    and "cameraX g' = cameraX g"
    and "distance g' = distance g"
    and "gameState g' = gameState g"
    and "gameHeight g' = gameHeight g"
    and "gameWidth g' = gameWidth g"
    and "player g' = player g"
    and "score g' = score g"
    and "lastAutoJumpTime g' = lastAutoJumpTime g"
    and "autoJumpCooldown g' = autoJumpCooldown g"
    and "autoJumpLog g' = autoJumpLog g"
    and "autoMode g' = autoMode g"
    and "keys g' = keys g"
    and "gravity g' = gravity g"
    and "jumpForce g' = jumpForce g"
    and "randomSource g' = randomSource g"
  using assms by (auto simp: generateObstacles_def Let_def split_def generateSpike_frame generateBlock_frame generatePlatform_frame split: option.splits if_splits featureType.splits)

lemma autoJumpNow_frame [simp]:
  "gameSpeed (autoJumpNow t g) = gameSpeed g"
  "cameraX (autoJumpNow t g) = cameraX g"
  "distance (autoJumpNow t g) = distance g"
  "gameState (autoJumpNow t g) = gameState g"
  "gameHeight (autoJumpNow t g) = gameHeight g"
  "gameWidth (autoJumpNow t g) = gameWidth g"
  "obstacles (autoJumpNow t g) = obstacles g"
  "platforms (autoJumpNow t g) = platforms g"
  "score (autoJumpNow t g) = score g"
  "autoJumpCooldown (autoJumpNow t g) = autoJumpCooldown g"
  "autoMode (autoJumpNow t g) = autoMode g"
  "keys (autoJumpNow t g) = keys g"
  "gravity (autoJumpNow t g) = gravity g"
  "jumpForce (autoJumpNow t g) = jumpForce g"
  "randomSource (autoJumpNow t g) = randomSource g"
  by (simp_all add: autoJumpNow_def Let_def)

lemma autoJump_frame [simp]:
  "gameSpeed (autoJump t g) = gameSpeed g"
  "cameraX (autoJump t g) = cameraX g"
  "distance (autoJump t g) = distance g"
  "gameState (autoJump t g) = gameState g"
  "gameHeight (autoJump t g) = gameHeight g"
  "gameWidth (autoJump t g) = gameWidth g"
  "obstacles (autoJump t g) = obstacles g"
  "platforms (autoJump t g) = platforms g"
  "score (autoJump t g) = score g"
  "autoJumpCooldown (autoJump t g) = autoJumpCooldown g"
  "autoMode (autoJump t g) = autoMode g"
  "keys (autoJump t g) = keys g"
  "gravity (autoJump t g) = gravity g"
  "jumpForce (autoJump t g) = jumpForce g"
  "randomSource (autoJump t g) = randomSource g"
  by (simp_all add: autoJump_def Let_def)

subsection \<open>The tick returns\<close>

lemma arrayAt_unit:
  assumes "0 \<le> r" "r < 1" "xs \<noteq> []"
  shows "\<exists>v. arrayAt xs \<lfloor>r * real (length xs)\<rfloor> = Some v"
proof -
  have len: "0 < real (length xs)" using assms(3) by simp
  have lo: "0 \<le> r * real (length xs)" using assms(1) by simp
  have hi: "r * real (length xs) < real (length xs)" using assms(2) len by simp
  have "0 \<le> \<lfloor>r * real (length xs)\<rfloor>" using lo by simp
  moreover have "\<lfloor>r * real (length xs)\<rfloor> < int (length xs)"
    using hi by (simp add: floor_less_iff)
  ultimately show ?thesis by (simp add: arrayAt_def)
qed

lemma generateObstacles_total:
  assumes "unitRandom g"
  shows "\<exists>g'. generateObstacles g = Inr g'"
proof -
  have r: "\<And>n. 0 \<le> randomSource g n" "\<And>n. randomSource g n < 1"
    using assms by (simp_all add: unitRandom_def)
  have pos: "getSpikePositions h \<noteq> []" for h
    by (simp add: getSpikePositions_def Let_def)
  have pick: "xs \<noteq> [] \<Longrightarrow> \<exists>v. arrayAt xs \<lfloor>randomSource g n * real (length xs)\<rfloor> = Some v"
    for xs :: "'a list" and n
    using arrayAt_unit r by blast
  show ?thesis
    using pick [of "[SpikeFeature, BlockFeature, PlatformFeature]" "Suc (randomCount g)"]
      pick [of "[120, 150, 180::real]" "Suc (Suc (randomCount g))"]
      pick [of "[150, 200, 250::real]" "Suc (Suc (Suc (randomCount g)))"]
      pick [OF pos, of "snd (Math_random (snd (Math_random g)))" "Suc (Suc (randomCount g))"]
    by (auto simp: generateObstacles_def generateSpike_def generateBlock_def generatePlatform_def
        Math_random_def Let_def split_def
        split: option.splits featureType.splits)
qed

lemma update_total:
  assumes "unitRandom g"
  shows "\<exists>g'. update t g = Inr g'"
proof -
  let ?g1 = "updatePlayer (g\<lparr>autoMode := (case keys g ''KeyA'' of Some b \<Rightarrow> b | None \<Rightarrow> False)\<rparr>)"
  have "unitRandom ?g1"
    using assms by (simp add: unitRandom_def updatePlayer_def Let_def)
  then obtain g2 where "generateObstacles ?g1 = Inr g2"
    using generateObstacles_total by blast
  then show ?thesis by (simp add: update_def Let_def)
qed

lemma update_steps:
  assumes "gameState g = Playing" and "update t g = Inr g'"
  shows "\<exists>g2. generateObstacles
                (updatePlayer
                  (g\<lparr>autoMode := (case keys g ''KeyA'' of Some b \<Rightarrow> b | None \<Rightarrow> False)\<rparr>))
              = Inr g2 \<and>
              g' = (let g6 = updateCamera (checkCollisions (updateParticles (updateObstacles g2)))
                    in if autoMode g6 then autoJump t g6 else g6)"
  using assms by (auto simp: update_def Let_def split: sum.splits)

lemma update_randomSource:
  assumes "update t g = Inr g'"
  shows "randomSource g' = randomSource g"
proof (cases "gameState g = Playing")
  case False
  then show ?thesis using assms by (simp add: update_def)
next
  case True
  let ?g0 = "g\<lparr>autoMode := (case keys g ''KeyA'' of Some b \<Rightarrow> b | None \<Rightarrow> False)\<rparr>"
  obtain g2 where g2: "generateObstacles (updatePlayer ?g0) = Inr g2"
    and g': "g' = (let g6 = updateCamera (checkCollisions (updateParticles (updateObstacles g2)))
                   in if autoMode g6 then autoJump t g6 else g6)"
    using update_steps [OF True assms] by blast
  have "randomSource g2 = randomSource g"
    using generateObstacles_frame [OF g2] by simp
  then show ?thesis using g' by (simp add: Let_def)
qed

lemma handle_total:
  assumes "unitRandom g"
  shows "\<exists>g'. handle e g = Inr g' \<and> unitRandom g'"
proof (cases e)
  case (Frame t)
  obtain g' where u: "update t g = Inr g'" using update_total [OF assms] by blast
  then have "unitRandom g'"
    using update_randomSource [OF u] assms by (simp add: unitRandom_def)
  then show ?thesis using Frame u by simp
qed (use assms in \<open>auto simp: unitRandom_def Let_def startGame_def restartGame_def
        resizeCanvas_def\<close>)

lemma run_total:
  "unitRandom g \<Longrightarrow> \<exists>g'. run es g = Inr g'"
proof (induction es arbitrary: g)
  case Nil
  show ?case by simp
next
  case (Cons e es)
  obtain g1 where "handle e g = Inr g1" and "unitRandom g1"
    using handle_total [OF Cons.prems] by blast
  then show ?case using Cons.IH [of g1] by simp
qed

subsection \<open>Evaluating sample states\<close>

text \<open>The definitions that evaluate a tick on a sample state.\<close>

lemmas tick_eval = update_def startGame_def constructor_def updatePlayer_def checkIfGrounded_def
     generateObstacles_def Math_random_def updateObstacles_def updateParticles_def checkCollisions_def
     checkObstacle_def landingOnBlock_def hitsBlock_def gameOver_def updateCamera_def Let_def

lemmas spike_eval = checkSpikeCollision_def trianglePoints_def pointInTriangle_def
  barycentricDenominator_def linesIntersect_def lineDenominator_def lineUa_def lineUb_def
  generateSpike_def getSpikePositions_def arrayAt_def newSpike_def

subsection \<open>Camera offset and speed over a tick\<close>

lemma checkObstacle_gameState:
  "gameState (stateOf (checkObstacle ob g)) =
     (if returned (checkObstacle ob g) then GameOver else gameState g)"
  by (simp add: checkObstacle_def gameOver_def)

lemma checkObstacles_gameState:
  "gameState (stateOf (checkObstacles obs g)) =
     (if returned (checkObstacles obs g) then GameOver else gameState g)"
proof (induction obs arbitrary: g)
  case Nil
  show ?case by simp
next
  case (Cons ob obs)
  show ?case
  proof (cases "checkObstacle ob g")
    case (Continue g1)
    then have "gameState g1 = gameState g"
      using checkObstacle_gameState [of ob g] by simp
    then show ?thesis using Continue Cons.IH [of g1] by simp
  next
    case (Return g1)
    then show ?thesis using checkObstacle_gameState [of ob g] by simp
  qed
qed

lemma update_playing:
  assumes "gameState g = Playing" and "update t g = Inr g'"
  shows "cameraX g' = cameraX g + gameSpeed g"
    and "gameSpeed g' = gameSpeed g + 0.001"
    and "distance g' = \<lfloor>(cameraX g + gameSpeed g) / 10\<rfloor>"
proof -
  let ?g1 = "updatePlayer (g\<lparr>autoMode := (case keys g ''KeyA'' of Some b \<Rightarrow> b | None \<Rightarrow> False)\<rparr>)"
  obtain g2 where g2: "generateObstacles ?g1 = Inr g2"
    using assms by (auto simp: update_def Let_def split: sum.splits)
  let ?g6 = "updateCamera (checkCollisions (updateParticles (updateObstacles g2)))"
  have g': "g' = (if autoMode ?g6 then autoJump t ?g6 else ?g6)"
    using assms g2 by (auto simp: update_def Let_def)
  have c: "cameraX g2 = cameraX g" and s: "gameSpeed g2 = gameSpeed g"
    using generateObstacles_frame [OF g2] by simp_all
  have c6: "cameraX ?g6 = cameraX g + gameSpeed g"
    by (simp add: updateCamera_def Let_def c s)
  have s6: "gameSpeed ?g6 = gameSpeed g + 0.001"
    by (simp add: updateCamera_def Let_def s)
  have d6: "distance ?g6 = \<lfloor>(cameraX g + gameSpeed g) / 10\<rfloor>"
    by (simp add: updateCamera_def Let_def c s)
  show "cameraX g' = cameraX g + gameSpeed g" using g' c6 by simp
  show "gameSpeed g' = gameSpeed g + 0.001" using g' s6 by simp
  show "distance g' = \<lfloor>(cameraX g + gameSpeed g) / 10\<rfloor>" using g' d6 by simp
qed

lemma update_not_playing: "gameState g \<noteq> Playing \<Longrightarrow> update t g = Inr g"
  by (simp add: update_def)

lemma update_gameSpeed: "update t g = Inr g' \<Longrightarrow> gameSpeed g \<le> gameSpeed g'"
  using update_playing(2) [of g t g'] update_not_playing [of g t]
  by (cases "gameState g = Playing") auto

lemma handle_gameSpeed:
  "e \<noteq> ClickRestart \<Longrightarrow> handle e g = Inr g' \<Longrightarrow> gameSpeed g \<le> gameSpeed g'"
  by (cases e)
    (auto simp: Let_def startGame_def resizeCanvas_def dest: update_gameSpeed split: if_splits)

text \<open>
  C8. Over any sequence of events without a restart, and so between any two ticks of one
  session, the speed does not decrease: the speed after the later tick is at least the
  speed after the earlier one.
\<close>

theorem speed_nondecreasing:
  "ClickRestart \<notin> set es \<Longrightarrow> run es g = Inr g' \<Longrightarrow> gameSpeed g \<le> gameSpeed g'"
proof (induction es arbitrary: g)
  case Nil
  then show ?case by simp
next
  case (Cons e es)
  from Cons.prems obtain g1 where h: "handle e g = Inr g1" and r: "run es g1 = Inr g'"
    by (auto split: sum.splits)
  have "gameSpeed g \<le> gameSpeed g1" using handle_gameSpeed [OF _ h] Cons.prems(1) by auto
  moreover have "gameSpeed g1 \<le> gameSpeed g'" using Cons.IH [OF _ r] Cons.prems(1) by auto
  ultimately show ?case by simp
qed

lemma idle_run:
  "run [Frame 0, KeyDown ''Space'', Frame 16] idleSession =
     Inr (idleSession\<lparr>keys := [''Space'' \<mapsto> True], randomCount := 2,
            player := \<lparr>px = 100, py = 12 / 5, pwidth = 40, pheight = 40, velocityY = 8 / 5,
                       isGrounded = False, rotation = 2 / 5, pcolor = ''#00ff88''\<rparr>,
            cameraX := 10001 / 1000, distance := 1, gameSpeed := 5002 / 1000\<rparr>)"
  by (simp add: idleSession_def tick_eval jump_def)

theorem speed_nondecreasing_witness:
  "ClickRestart \<notin> set [Frame 0, KeyDown ''Space'', Frame 16] \<and>
   gameSpeed idleSession = 5 \<and>
   gameSpeed (projr (run [Frame 0, KeyDown ''Space'', Frame 16] idleSession)) = 5.002"
proof -
  have a: "ClickRestart \<notin> set [Frame 0, KeyDown ''Space'', Frame 16]" by simp
  have b: "gameSpeed idleSession = 5"
    by (simp add: idleSession_def startGame_def constructor_def)
  have c: "gameSpeed (projr (run [Frame 0, KeyDown ''Space'', Frame 16] idleSession)) = 5.002"
    unfolding idle_run by simp
  from speed_nondecreasing [OF a idle_run] a b c show ?thesis by blast
qed

subsection \<open>The tick on which the run ends\<close>

text \<open>
  In general: on a tick that ends the run, \<open>checkCollisions\<close> returns to \<open>update\<close>, which
  goes on with \<open>updateCamera\<close> and, in auto mode, \<open>autoJump\<close>. With \<open>g5\<close> the state at
  the transition to GameOver, the camera offset after the tick is that of \<open>g5\<close> plus the
  speed, the distance is recomputed from it and the speed is that of \<open>g5\<close> plus 0.001.
\<close>

lemma lethal_tick_runs_on:
  assumes "gameState g = Playing" and "update t g = Inr g'" and "gameState g' = GameOver"
  shows "\<exists>g2. generateObstacles
                (updatePlayer
                  (g\<lparr>autoMode := (case keys g ''KeyA'' of Some b \<Rightarrow> b | None \<Rightarrow> False)\<rparr>))
              = Inr g2 \<and>
              (let g5 = checkCollisions (updateParticles (updateObstacles g2))
               in gameState g5 = GameOver \<and>
                  cameraX g5 = cameraX g \<and> gameSpeed g5 = gameSpeed g \<and>
                  distance g5 = distance g \<and>
                  g' = (if autoMode (updateCamera g5) then autoJump t (updateCamera g5)
                        else updateCamera g5) \<and>
                  cameraX g' = cameraX g5 + gameSpeed g5 \<and>
                  distance g' = \<lfloor>cameraX g' / 10\<rfloor> \<and>
                  gameSpeed g' = gameSpeed g5 + 0.001)"
proof -
  obtain g2 where g2: "generateObstacles
        (updatePlayer
          (g\<lparr>autoMode := (case keys g ''KeyA'' of Some b \<Rightarrow> b | None \<Rightarrow> False)\<rparr>)) = Inr g2"
    and g': "g' = (let g6 = updateCamera (checkCollisions (updateParticles (updateObstacles g2)))
                   in if autoMode g6 then autoJump t g6 else g6)"
    using update_steps [OF assms(1,2)] by blast
  let ?g5 = "checkCollisions (updateParticles (updateObstacles g2))"
  have st: "gameState g' = gameState ?g5"
    using g' by (simp add: Let_def)
  have c5: "cameraX ?g5 = cameraX g" and s5: "gameSpeed ?g5 = gameSpeed g"
    and d5: "distance ?g5 = distance g"
    using generateObstacles_frame [OF g2] by simp_all
  have "gameState ?g5 = GameOver" using st assms(3) by simp
  moreover have "cameraX g' = cameraX ?g5 + gameSpeed ?g5"
    using update_playing(1) [OF assms(1,2)] c5 s5 by simp
  moreover have "distance g' = \<lfloor>cameraX g' / 10\<rfloor>"
    using update_playing(1,3) [OF assms(1,2)] by simp
  moreover have "gameSpeed g' = gameSpeed ?g5 + 0.001"
    using update_playing(2) [OF assms(1,2)] s5 by simp
  moreover have "g' = (if autoMode (updateCamera ?g5) then autoJump t (updateCamera ?g5)
                        else updateCamera ?g5)"
    using g' by (simp add: Let_def)
  ultimately show ?thesis using g2 c5 s5 d5 by (simp add: Let_def)
qed

lemma lethalRun_result:
  "run lethalRun (constructor 160 600 crashDraws) = Inr beforeLethal"
  by (simp add: lethalRun_def beforeLethal_def crashDraws_def tick_eval spike_eval
      resizeCanvas_def)

lemma beforeLethal_spawn:
  "generateObstacles (updatePlayer beforeLethal)
     = Inr ((updatePlayer beforeLethal)\<lparr>randomCount := 7\<rparr>)"
  by (simp add: beforeLethal_def crashDraws_def tick_eval)

lemma beforeLethal_transition:
  "checkCollisions
     (updateParticles (updateObstacles ((updatePlayer beforeLethal)\<lparr>randomCount := 7\<rparr>)))
   = beforeLethal\<lparr>gameState := GameOver, randomCount := 7,
        player := \<lparr>px = 100, py = 2536 / 5, pwidth = 40, pheight = 40, velocityY = 16 / 5,
                    isGrounded = False, rotation = 4 / 5, pcolor = ''#00ff88''\<rparr>,
        obstacles := [newSpike (69997 / 500) 520]\<rparr>"
  by (simp add: beforeLethal_def crashDraws_def tick_eval spike_eval)

lemma beforeLethal_update:
  "update 50 beforeLethal =
     Inr (updateCamera
            (checkCollisions
              (updateParticles
                (updateObstacles ((updatePlayer beforeLethal)\<lparr>randomCount := 7\<rparr>)))))"
  unfolding beforeLethal_transition
  by (simp add: beforeLethal_def crashDraws_def tick_eval spike_eval)

text \<open>
  C2 at a concrete session. \<open>lethalRun\<close> leaves a fresh 160 by 600 session in
  \<open>beforeLethal\<close>, Playing. On the next frame the spike kills the player: at the moment
  \<open>checkCollisions\<close> sets the phase to GameOver the camera offset is 15.003, the distance
  1 (the value \<open>gameOver\<close> publishes as final distance) and the speed 5.003. \<open>update\<close>
  then still calls \<open>updateCamera\<close>: after the tick the camera offset is 20.006, the
  distance 2 and the speed 5.004.
\<close>

theorem lethal_tick_still_advances_camera:
  "run lethalRun (constructor 160 600 crashDraws) = Inr beforeLethal \<and>
   gameState beforeLethal = Playing \<and>
   generateObstacles (updatePlayer beforeLethal)
     = Inr ((updatePlayer beforeLethal)\<lparr>randomCount := 7\<rparr>) \<and>
   gameState (checkCollisions (updateParticles (updateObstacles
      ((updatePlayer beforeLethal)\<lparr>randomCount := 7\<rparr>)))) = GameOver \<and>
   cameraX (checkCollisions (updateParticles (updateObstacles
      ((updatePlayer beforeLethal)\<lparr>randomCount := 7\<rparr>)))) = 15003 / 1000 \<and>
   distance (checkCollisions (updateParticles (updateObstacles
      ((updatePlayer beforeLethal)\<lparr>randomCount := 7\<rparr>)))) = 1 \<and>
   gameSpeed (checkCollisions (updateParticles (updateObstacles
      ((updatePlayer beforeLethal)\<lparr>randomCount := 7\<rparr>)))) = 5003 / 1000 \<and>
   update 50 beforeLethal =
     Inr (updateCamera (checkCollisions (updateParticles (updateObstacles
            ((updatePlayer beforeLethal)\<lparr>randomCount := 7\<rparr>))))) \<and>
   gameState (projr (update 50 beforeLethal)) = GameOver \<and>
   cameraX (projr (update 50 beforeLethal)) = 20006 / 1000 \<and>
   distance (projr (update 50 beforeLethal)) = 2 \<and>
   gameSpeed (projr (update 50 beforeLethal)) = 5004 / 1000"
  unfolding lethalRun_result beforeLethal_update beforeLethal_spawn beforeLethal_transition
  by (simp add: beforeLethal_def constructor_def updateCamera_def Let_def)

subsection \<open>The ground line\<close>

lemma updatePlayer_ground:
  "py (player (updatePlayer g)) + pheight (player (updatePlayer g)) \<le> gameHeight g - 50"
  by (simp add: updatePlayer_def Let_def)

lemma updatePlayer_clamp:
  assumes "py (player g) + (velocityY (player g) + gravity g) + pheight (player g)
             > gameHeight g - 50"
  shows "py (player (updatePlayer g)) + pheight (player (updatePlayer g)) = gameHeight g - 50"
    and "velocityY (player (updatePlayer g)) = 0"
  using assms by (simp_all add: updatePlayer_def Let_def)

lemma landOn_bottom:
  "py (player (landOn surfaceY c g)) + pheight (player (landOn surfaceY c g)) = surfaceY"
  by simp

lemma checkObstacle_bottom:
  "pheight (player (stateOf (checkObstacle ob g))) = pheight (player g) \<and>
   py (player (stateOf (checkObstacle ob g))) \<le> py (player g)"
  by (simp add: checkObstacle_def landingOnBlock_def gameOver_def Let_def)

lemma checkObstacles_bottom:
  "pheight (player (stateOf (checkObstacles obs g))) = pheight (player g) \<and>
   py (player (stateOf (checkObstacles obs g))) \<le> py (player g)"
proof (induction obs arbitrary: g)
  case Nil
  show ?case by simp
next
  case (Cons ob obs)
  show ?case
  proof (cases "checkObstacle ob g")
    case (Continue g1)
    then show ?thesis
      using checkObstacle_bottom [of ob g] Cons.IH [of g1] by simp
  next
    case (Return g1)
    then show ?thesis using checkObstacle_bottom [of ob g] by simp
  qed
qed

lemma checkPlatforms_bottom:
  "pheight (player (checkPlatforms ps g)) = pheight (player g) \<and>
   py (player (checkPlatforms ps g)) \<le> py (player g)"
proof (induction ps arbitrary: g)
  case Nil
  show ?case by simp
next
  case (Cons p ps)
  show ?case
  proof (cases "landingOnPlatform p g")
    case True
    then have "py (player (landOn (fy p) ''#00aaff'' g)) \<le> py (player g)"
      by (simp add: landingOnPlatform_def Let_def)
    then show ?thesis
      using True Cons.IH [of "landOn (fy p) ''#00aaff'' g"] by simp
  next
    case False
    then show ?thesis using Cons.IH [of g] by simp
  qed
qed

lemma checkCollisions_bottom:
  "pheight (player (checkCollisions g)) = pheight (player g) \<and>
   py (player (checkCollisions g)) \<le> py (player g)"
proof (cases "checkObstacles (obstacles g) g")
  case (Continue g1)
  then show ?thesis
    using checkObstacles_bottom [of "obstacles g" g] checkPlatforms_bottom [of "platforms g1" g1]
    by (simp add: checkCollisions_def)
next
  case (Return g1)
  then show ?thesis
    using checkObstacles_bottom [of "obstacles g" g] by (simp add: checkCollisions_def)
qed

lemma autoJump_player_box:
  "py (player (autoJump t g)) = py (player g)"
  "pheight (player (autoJump t g)) = pheight (player g)"
  by (simp_all add: autoJump_def autoJumpNow_def Let_def)

text \<open>
  C4. When gravity would carry the bottom edge below the ground line, \<open>updatePlayer\<close>
  puts it on the line and zeroes the velocity; and after every tick taken while Playing
  the bottom edge is on or above the ground line.
\<close>

theorem player_never_below_ground:
  "(py (player g) + (velocityY (player g) + gravity g) + pheight (player g) > gameHeight g - 50
      \<longrightarrow> py (player (updatePlayer g)) + pheight (player (updatePlayer g)) = gameHeight g - 50
          \<and> velocityY (player (updatePlayer g)) = 0) \<and>
   (gameState g = Playing \<and> update t g = Inr g'
      \<longrightarrow> py (player g') + pheight (player g') \<le> gameHeight g' - 50)"
proof (intro conjI impI)
  assume "py (player g) + (velocityY (player g) + gravity g) + pheight (player g)
            > gameHeight g - 50"
  then show "py (player (updatePlayer g)) + pheight (player (updatePlayer g)) = gameHeight g - 50"
    and "velocityY (player (updatePlayer g)) = 0"
    by (rule updatePlayer_clamp)+
next
  assume a: "gameState g = Playing \<and> update t g = Inr g'"
  let ?g0 = "g\<lparr>autoMode := (case keys g ''KeyA'' of Some b \<Rightarrow> b | None \<Rightarrow> False)\<rparr>"
  obtain g2 where g2: "generateObstacles (updatePlayer ?g0) = Inr g2"
    and g': "g' = (let g6 = updateCamera (checkCollisions (updateParticles (updateObstacles g2)))
                   in if autoMode g6 then autoJump t g6 else g6)"
    using update_steps [of g t g'] a by blast
  let ?g4 = "updateParticles (updateObstacles g2)"
  let ?g5 = "checkCollisions ?g4"
  have p2: "player g2 = player (updatePlayer ?g0)" and h2: "gameHeight g2 = gameHeight g"
    using generateObstacles_frame [OF g2] by simp_all
  have "py (player g2) + pheight (player g2) \<le> gameHeight g - 50"
    using updatePlayer_ground [of ?g0] p2 by simp
  then have "py (player ?g4) + pheight (player ?g4) \<le> gameHeight g - 50" by simp
  then have "py (player ?g5) + pheight (player ?g5) \<le> gameHeight g - 50"
    using checkCollisions_bottom [of ?g4] by simp
  moreover have "py (player g') = py (player ?g5)" "pheight (player g') = pheight (player ?g5)"
    using g' by (simp_all add: Let_def autoJump_player_box)
  moreover have "gameHeight g' = gameHeight g"
    using g' h2 by (simp add: Let_def)
  ultimately show "py (player g') + pheight (player g') \<le> gameHeight g' - 50" by simp
qed

lemma sideHit_after:
  "update 1000 sideHit =
     Inr (sideHit\<lparr>gameState := GameOver, randomCount := Suc 0,
        player := \<lparr>px = 100, py = 510, pwidth = 40, pheight = 40, velocityY = 0,
                    isGrounded = True, rotation = 1 / 5, pcolor = ''#00ff88''\<rparr>,
        obstacles := [\<lparr>ox = 123, oy = 480, owidth = 40, oheight = 60, otype = Block,
                       ocolor = ''#ffaa00''\<rparr>],
        cameraX := 13, distance := 1, gameSpeed := 5001 / 1000\<rparr>)"
  by (simp add: sideHit_def idleSession_def tick_eval)

theorem player_never_below_ground_witness:
  "py (player sideHit) + (velocityY (player sideHit) + gravity sideHit) + pheight (player sideHit)
     > gameHeight sideHit - 50 \<and>
   py (player (updatePlayer sideHit)) + pheight (player (updatePlayer sideHit)) = 550 \<and>
   velocityY (player (updatePlayer sideHit)) = 0 \<and>
   gameState sideHit = Playing \<and>
   update 1000 sideHit = Inr (projr (update 1000 sideHit)) \<and>
   py (player (projr (update 1000 sideHit))) + pheight (player (projr (update 1000 sideHit)))
     \<le> gameHeight (projr (update 1000 sideHit)) - 50"
proof -
  have a: "py (player sideHit) + (velocityY (player sideHit) + gravity sideHit)
             + pheight (player sideHit) > gameHeight sideHit - 50"
    and h: "gameHeight sideHit = 600"
    and b: "gameState sideHit = Playing"
    by (simp_all add: sideHit_def idleSession_def startGame_def constructor_def)
  have c: "update 1000 sideHit = Inr (projr (update 1000 sideHit))"
    unfolding sideHit_after by simp
  from player_never_below_ground [of sideHit 1000 "projr (update 1000 sideHit)"] a b c h
  show ?thesis by simp
qed

subsection \<open>Segment intersection\<close>

lemma lineDenominator_cross:
  "lineDenominator p1 p2 p3 p4 = 0 \<longleftrightarrow>
     (cx p2 - cx p1) * (cy p4 - cy p3) = (cy p2 - cy p1) * (cx p4 - cx p3)"
  by (auto simp: lineDenominator_def algebra_simps)

lemma line_parameters_meet:
  assumes "lineDenominator p1 p2 p3 p4 \<noteq> 0"
  shows "cx p1 + lineUa p1 p2 p3 p4 * (cx p2 - cx p1)
           = cx p3 + lineUb p1 p2 p3 p4 * (cx p4 - cx p3)"
    and "cy p1 + lineUa p1 p2 p3 p4 * (cy p2 - cy p1)
           = cy p3 + lineUb p1 p2 p3 p4 * (cy p4 - cy p3)"
  using assms unfolding lineUa_def lineUb_def
  by (simp_all add: lineDenominator_def field_simps)

text \<open>
  When the denominator is not zero, a point common to the two lines has the parameters
  \<open>ua\<close> and \<open>ub\<close> that the test computes.
\<close>

lemma line_parameters_unique:
  assumes d: "lineDenominator p1 p2 p3 p4 \<noteq> 0"
    and x: "cx p1 + s * (cx p2 - cx p1) = cx p3 + t * (cx p4 - cx p3)"
    and y: "cy p1 + s * (cy p2 - cy p1) = cy p3 + t * (cy p4 - cy p3)"
  shows "s = lineUa p1 p2 p3 p4" and "t = lineUb p1 p2 p3 p4"
proof -
  have x': "cx p1 - cx p3 = t * (cx p4 - cx p3) - s * (cx p2 - cx p1)"
    using x by (simp add: algebra_simps)
  have y': "cy p1 - cy p3 = t * (cy p4 - cy p3) - s * (cy p2 - cy p1)"
    using y by (simp add: algebra_simps)
  have "(cx p4 - cx p3) * (cy p1 - cy p3) - (cy p4 - cy p3) * (cx p1 - cx p3)
          = s * lineDenominator p1 p2 p3 p4"
    unfolding x' y' by (simp add: lineDenominator_def algebra_simps)
  then show "s = lineUa p1 p2 p3 p4"
    using d by (simp add: lineUa_def)
  have "(cx p2 - cx p1) * (cy p1 - cy p3) - (cy p2 - cy p1) * (cx p1 - cx p3)
          = t * lineDenominator p1 p2 p3 p4"
    unfolding x' y' by (simp add: lineDenominator_def algebra_simps)
  then show "t = lineUb p1 p2 p3 p4"
    using d by (simp add: lineUb_def)
qed

text \<open>
  C6. Written on the coordinates: \<open>linesIntersect\<close> is false whenever the denominator
  \<open>(p4.y - p3.y) * (p2.x - p1.x) - (p4.x - p3.x) * (p2.y - p1.y)\<close> is zero, that is
  whenever the directions of the two segments have a zero cross product (parallel segments,
  collinear ones among them). It is true exactly when the denominator is not zero and the
  two quotients \<open>ua\<close> and \<open>ub\<close> lie in \<open>[0, 1]\<close>. For segments that are not parallel this
  is the case exactly when the segments have a common point.
\<close>

theorem linesIntersect_parallel_false:
  "((cy p4 - cy p3) * (cx p2 - cx p1) - (cx p4 - cx p3) * (cy p2 - cy p1) = 0
      \<longrightarrow> \<not> linesIntersect p1 p2 p3 p4) \<and>
   ((cx p2 - cx p1) * (cy p4 - cy p3) = (cy p2 - cy p1) * (cx p4 - cx p3)
      \<longrightarrow> \<not> linesIntersect p1 p2 p3 p4) \<and>
   linesIntersect p1 p2 p3 p4 =
     ((cy p4 - cy p3) * (cx p2 - cx p1) - (cx p4 - cx p3) * (cy p2 - cy p1) \<noteq> 0 \<and>
      0 \<le> ((cx p4 - cx p3) * (cy p1 - cy p3) - (cy p4 - cy p3) * (cx p1 - cx p3))
            / ((cy p4 - cy p3) * (cx p2 - cx p1) - (cx p4 - cx p3) * (cy p2 - cy p1)) \<and>
      ((cx p4 - cx p3) * (cy p1 - cy p3) - (cy p4 - cy p3) * (cx p1 - cx p3))
            / ((cy p4 - cy p3) * (cx p2 - cx p1) - (cx p4 - cx p3) * (cy p2 - cy p1)) \<le> 1 \<and>
      0 \<le> ((cx p2 - cx p1) * (cy p1 - cy p3) - (cy p2 - cy p1) * (cx p1 - cx p3))
            / ((cy p4 - cy p3) * (cx p2 - cx p1) - (cx p4 - cx p3) * (cy p2 - cy p1)) \<and>
      ((cx p2 - cx p1) * (cy p1 - cy p3) - (cy p2 - cy p1) * (cx p1 - cx p3))
            / ((cy p4 - cy p3) * (cx p2 - cx p1) - (cx p4 - cx p3) * (cy p2 - cy p1)) \<le> 1) \<and>
   ((cy p4 - cy p3) * (cx p2 - cx p1) - (cx p4 - cx p3) * (cy p2 - cy p1) \<noteq> 0 \<longrightarrow>
      linesIntersect p1 p2 p3 p4 =
        (\<exists>s t. 0 \<le> s \<and> s \<le> 1 \<and> 0 \<le> t \<and> t \<le> 1 \<and>
           cx p1 + s * (cx p2 - cx p1) = cx p3 + t * (cx p4 - cx p3) \<and>
           cy p1 + s * (cy p2 - cy p1) = cy p3 + t * (cy p4 - cy p3)))"
proof (intro conjI impI)
  assume "(cy p4 - cy p3) * (cx p2 - cx p1) - (cx p4 - cx p3) * (cy p2 - cy p1) = 0"
  then show "\<not> linesIntersect p1 p2 p3 p4"
    by (simp add: linesIntersect_def lineDenominator_def)
next
  assume "(cx p2 - cx p1) * (cy p4 - cy p3) = (cy p2 - cy p1) * (cx p4 - cx p3)"
  then show "\<not> linesIntersect p1 p2 p3 p4"
    using lineDenominator_cross [of p1 p2 p3 p4] by (simp add: linesIntersect_def)
next
  show "linesIntersect p1 p2 p3 p4 =
     ((cy p4 - cy p3) * (cx p2 - cx p1) - (cx p4 - cx p3) * (cy p2 - cy p1) \<noteq> 0 \<and>
      0 \<le> ((cx p4 - cx p3) * (cy p1 - cy p3) - (cy p4 - cy p3) * (cx p1 - cx p3))
            / ((cy p4 - cy p3) * (cx p2 - cx p1) - (cx p4 - cx p3) * (cy p2 - cy p1)) \<and>
      ((cx p4 - cx p3) * (cy p1 - cy p3) - (cy p4 - cy p3) * (cx p1 - cx p3))
            / ((cy p4 - cy p3) * (cx p2 - cx p1) - (cx p4 - cx p3) * (cy p2 - cy p1)) \<le> 1 \<and>
      0 \<le> ((cx p2 - cx p1) * (cy p1 - cy p3) - (cy p2 - cy p1) * (cx p1 - cx p3))
            / ((cy p4 - cy p3) * (cx p2 - cx p1) - (cx p4 - cx p3) * (cy p2 - cy p1)) \<and>
      ((cx p2 - cx p1) * (cy p1 - cy p3) - (cy p2 - cy p1) * (cx p1 - cx p3))
            / ((cy p4 - cy p3) * (cx p2 - cx p1) - (cx p4 - cx p3) * (cy p2 - cy p1)) \<le> 1)"
    by (simp add: linesIntersect_def lineDenominator_def lineUa_def lineUb_def Let_def)
next
  assume "(cy p4 - cy p3) * (cx p2 - cx p1) - (cx p4 - cx p3) * (cy p2 - cy p1) \<noteq> 0"
  then have d: "lineDenominator p1 p2 p3 p4 \<noteq> 0" by (simp add: lineDenominator_def)
  show "linesIntersect p1 p2 p3 p4 =
        (\<exists>s t. 0 \<le> s \<and> s \<le> 1 \<and> 0 \<le> t \<and> t \<le> 1 \<and>
           cx p1 + s * (cx p2 - cx p1) = cx p3 + t * (cx p4 - cx p3) \<and>
           cy p1 + s * (cy p2 - cy p1) = cy p3 + t * (cy p4 - cy p3))"
  proof
    assume "linesIntersect p1 p2 p3 p4"
    then have "0 \<le> lineUa p1 p2 p3 p4 \<and> lineUa p1 p2 p3 p4 \<le> 1 \<and>
               0 \<le> lineUb p1 p2 p3 p4 \<and> lineUb p1 p2 p3 p4 \<le> 1"
      using d by (simp add: linesIntersect_def Let_def)
    then show "\<exists>s t. 0 \<le> s \<and> s \<le> 1 \<and> 0 \<le> t \<and> t \<le> 1 \<and>
           cx p1 + s * (cx p2 - cx p1) = cx p3 + t * (cx p4 - cx p3) \<and>
           cy p1 + s * (cy p2 - cy p1) = cy p3 + t * (cy p4 - cy p3)"
      using line_parameters_meet [OF d] by blast
  next
    assume "\<exists>s t. 0 \<le> s \<and> s \<le> 1 \<and> 0 \<le> t \<and> t \<le> 1 \<and>
           cx p1 + s * (cx p2 - cx p1) = cx p3 + t * (cx p4 - cx p3) \<and>
           cy p1 + s * (cy p2 - cy p1) = cy p3 + t * (cy p4 - cy p3)"
    then obtain s t where b: "0 \<le> s" "s \<le> 1" "0 \<le> t" "t \<le> 1"
      and x: "cx p1 + s * (cx p2 - cx p1) = cx p3 + t * (cx p4 - cx p3)"
      and y: "cy p1 + s * (cy p2 - cy p1) = cy p3 + t * (cy p4 - cy p3)"
      by blast
    have "s = lineUa p1 p2 p3 p4" "t = lineUb p1 p2 p3 p4"
      using line_parameters_unique [OF d x y] by simp_all
    then show "linesIntersect p1 p2 p3 p4"
      using b d by (simp add: linesIntersect_def Let_def)
  qed
qed

text \<open>
  Three pairs of segments. From (0,0) to (2,0) and from (1,0) to (3,0): collinear, sharing
  the stretch from (1,0) to (2,0); the test answers false. From (0,0) to (2,2) and from
  (0,2) to (2,0): they cross at (1,1), with \<open>ua = ub = 1/2\<close>; the test answers true. From
  (0,0) to (1,1) and from (0,4) to (4,0): the lines meet at (2,2), beyond the end of the
  first segment (\<open>ua = 2\<close>); the test answers false.
\<close>

theorem linesIntersect_parallel_false_witness:
  "(cy \<lparr>cx = 3, cy = 0\<rparr> - cy \<lparr>cx = 1, cy = 0\<rparr>) * (cx \<lparr>cx = 2, cy = 0\<rparr> - cx \<lparr>cx = 0, cy = 0\<rparr>)
     - (cx \<lparr>cx = 3, cy = 0\<rparr> - cx \<lparr>cx = 1, cy = 0\<rparr>) * (cy \<lparr>cx = 2, cy = 0\<rparr> - cy \<lparr>cx = 0, cy = 0\<rparr>)
     = (0::real) \<and>
   \<not> linesIntersect \<lparr>cx = 0, cy = 0\<rparr> \<lparr>cx = 2, cy = 0\<rparr> \<lparr>cx = 1, cy = 0\<rparr> \<lparr>cx = 3, cy = 0\<rparr> \<and>
   linesIntersect \<lparr>cx = 0, cy = 0\<rparr> \<lparr>cx = 2, cy = 2\<rparr> \<lparr>cx = 0, cy = 2\<rparr> \<lparr>cx = 2, cy = 0\<rparr> \<and>
   \<not> linesIntersect \<lparr>cx = 0, cy = 0\<rparr> \<lparr>cx = 1, cy = 1\<rparr> \<lparr>cx = 0, cy = 4\<rparr> \<lparr>cx = 4, cy = 0\<rparr>"
proof -
  have a: "\<not> linesIntersect \<lparr>cx = 0, cy = 0\<rparr> \<lparr>cx = 2, cy = 0\<rparr> \<lparr>cx = 1, cy = 0\<rparr> \<lparr>cx = 3, cy = 0\<rparr>"
    using linesIntersect_parallel_false
      [of "\<lparr>cx = 3, cy = 0\<rparr>" "\<lparr>cx = 1, cy = 0\<rparr>" "\<lparr>cx = 2, cy = 0\<rparr>" "\<lparr>cx = 0, cy = 0\<rparr>"]
    by simp
  have b: "linesIntersect \<lparr>cx = 0, cy = 0\<rparr> \<lparr>cx = 2, cy = 2\<rparr> \<lparr>cx = 0, cy = 2\<rparr> \<lparr>cx = 2, cy = 0\<rparr>"
    using linesIntersect_parallel_false
      [of "\<lparr>cx = 2, cy = 0\<rparr>" "\<lparr>cx = 0, cy = 2\<rparr>" "\<lparr>cx = 2, cy = 2\<rparr>" "\<lparr>cx = 0, cy = 0\<rparr>"]
    by simp
  have c: "\<not> linesIntersect \<lparr>cx = 0, cy = 0\<rparr> \<lparr>cx = 1, cy = 1\<rparr> \<lparr>cx = 0, cy = 4\<rparr> \<lparr>cx = 4, cy = 0\<rparr>"
    using linesIntersect_parallel_false
      [of "\<lparr>cx = 4, cy = 0\<rparr>" "\<lparr>cx = 0, cy = 4\<rparr>" "\<lparr>cx = 1, cy = 1\<rparr>" "\<lparr>cx = 0, cy = 0\<rparr>"]
    by simp
  from a b c show ?thesis by simp
qed

subsection \<open>Landing on a block\<close>

lemma landingOnBlock_iff: "landingOnBlock b g = landingCondition b g"
  by (auto simp: landingOnBlock_def landingCondition_def overlapsHorizontally_def Let_def)

lemma hitsBlock_iff: "hitsBlock b g = rectanglesOverlap b g"
  by (auto simp: hitsBlock_def rectanglesOverlap_def overlapsHorizontally_def Let_def)

text \<open>
  A step of the obstacle loop that goes on either leaves the state as it is or lands the
  player on a surface that is not below its bottom edge.
\<close>

lemma checkObstacle_Continue:
  assumes "checkObstacle ob g = Continue g'"
  shows "g' = g \<or>
         (g' = landOn (oy ob) ''#ffaa00'' g \<and> oy ob \<le> py (player g) + pheight (player g))"
  using assms
  by (auto simp: checkObstacle_def landingOnBlock_def Let_def split: if_splits)

lemma checkObstacles_append:
  "checkObstacles (pre @ post) g =
     (case checkObstacles pre g of
        Return g' \<Rightarrow> Return g'
      | Continue g1 \<Rightarrow> checkObstacles post g1)"
  by (induction pre arbitrary: g) (auto split: flow.splits)

lemma checkObstacles_returned_iff:
  "returned (checkObstacles obs g) \<longleftrightarrow>
     (\<exists>pre ob post g1. obs = pre @ ob # post \<and> checkObstacles pre g = Continue g1 \<and>
        returned (checkObstacle ob g1))"
proof (induction obs arbitrary: g)
  case Nil
  show ?case by simp
next
  case (Cons a obs)
  show ?case
  proof (cases "checkObstacle a g")
    case (Return g')
    then have "a # obs = [] @ a # obs \<and> checkObstacles [] g = Continue g \<and>
               returned (checkObstacle a g)" by simp
    then have "\<exists>pre ob post g1. a # obs = pre @ ob # post \<and>
        checkObstacles pre g = Continue g1 \<and> returned (checkObstacle ob g1)" by blast
    then show ?thesis using Return by simp
  next
    case (Continue g2)
    have "(\<exists>pre ob post g1. a # obs = pre @ ob # post \<and>
             checkObstacles pre g = Continue g1 \<and> returned (checkObstacle ob g1))
          \<longleftrightarrow> (\<exists>pre ob post g1. obs = pre @ ob # post \<and>
             checkObstacles pre g2 = Continue g1 \<and> returned (checkObstacle ob g1))"
    proof
      assume "\<exists>pre ob post g1. a # obs = pre @ ob # post \<and>
             checkObstacles pre g = Continue g1 \<and> returned (checkObstacle ob g1)"
      then obtain pre ob post g1 where e: "a # obs = pre @ ob # post"
        and c: "checkObstacles pre g = Continue g1" and r: "returned (checkObstacle ob g1)"
        by blast
      show "\<exists>pre ob post g1. obs = pre @ ob # post \<and>
             checkObstacles pre g2 = Continue g1 \<and> returned (checkObstacle ob g1)"
      proof (cases pre)
        case Nil
        then show ?thesis using e c r Continue by simp
      next
        case (Cons a' pre')
        then have "obs = pre' @ ob # post" "checkObstacles pre' g2 = Continue g1"
          using e c Continue by simp_all
        then show ?thesis using r by blast
      qed
    next
      assume "\<exists>pre ob post g1. obs = pre @ ob # post \<and>
             checkObstacles pre g2 = Continue g1 \<and> returned (checkObstacle ob g1)"
      then obtain pre ob post g1 where e: "obs = pre @ ob # post"
        and c: "checkObstacles pre g2 = Continue g1" and r: "returned (checkObstacle ob g1)"
        by blast
      have "a # obs = (a # pre) @ ob # post" "checkObstacles (a # pre) g = Continue g1"
        using e c Continue by simp_all
      then show "\<exists>pre ob post g1. a # obs = pre @ ob # post \<and>
             checkObstacles pre g = Continue g1 \<and> returned (checkObstacle ob g1)"
        using r by blast
    qed
    then show ?thesis using Continue Cons.IH [of g2] by simp
  qed
qed

lemma checkCollisions_gameOver_iff:
  assumes "gameState g = Playing"
  shows "gameState (checkCollisions g) = GameOver
           \<longleftrightarrow> returned (checkObstacles (obstacles g) g)"
proof (cases "checkObstacles (obstacles g) g")
  case (Continue g1)
  then have "gameState g1 = Playing"
    using checkObstacles_gameState [of "obstacles g" g] assms by simp
  then show ?thesis using Continue by (simp add: checkCollisions_def)
next
  case (Return g1)
  then have "gameState g1 = GameOver"
    using checkObstacles_gameState [of "obstacles g" g] by simp
  then show ?thesis using Return by (simp add: checkCollisions_def)
qed

text \<open>
  What a block with the landing condition keeps through the steps of the loop before it:
  the player overlaps it horizontally, does not rise, has its bottom edge no lower than
  the landing window, and is at rest if the bottom edge is above the block's top.
\<close>

lemma landing_kept:
  assumes "checkObstacles pre g = Continue g1"
    and "overlapsHorizontally b g" and "0 \<le> velocityY (player g)"
    and "py (player g) + pheight (player g) \<le> oy b + oheight b + 5"
    and "py (player g) + pheight (player g) < oy b \<longrightarrow> velocityY (player g) = 0"
  shows "overlapsHorizontally b g1 \<and> 0 \<le> velocityY (player g1) \<and>
         py (player g1) + pheight (player g1) \<le> oy b + oheight b + 5 \<and>
         (py (player g1) + pheight (player g1) < oy b \<longrightarrow> velocityY (player g1) = 0)"
  using assms
proof (induction pre arbitrary: g)
  case Nil
  then show ?case by simp
next
  case (Cons a pre)
  from Cons.prems(1) obtain g2 where s: "checkObstacle a g = Continue g2"
    and r: "checkObstacles pre g2 = Continue g1"
    by (auto split: flow.splits)
  have "overlapsHorizontally b g2 \<and> 0 \<le> velocityY (player g2) \<and>
        py (player g2) + pheight (player g2) \<le> oy b + oheight b + 5 \<and>
        (py (player g2) + pheight (player g2) < oy b \<longrightarrow> velocityY (player g2) = 0)"
    using checkObstacle_Continue [OF s] Cons.prems(2-5)
    by (auto simp: overlapsHorizontally_def)
  then show ?case using Cons.IH [OF r] by blast
qed

lemma landed_kept:
  assumes "checkObstacles obs g = Continue g1"
    and "velocityY (player g) = 0" and "py (player g) + pheight (player g) \<le> y"
  shows "velocityY (player g1) = 0 \<and> py (player g1) + pheight (player g1) \<le> y"
  using assms
proof (induction obs arbitrary: g)
  case Nil
  then show ?case by simp
next
  case (Cons a obs)
  from Cons.prems(1) obtain g2 where s: "checkObstacle a g = Continue g2"
    and r: "checkObstacles obs g2 = Continue g1"
    by (auto split: flow.splits)
  have "velocityY (player g2) = 0 \<and> py (player g2) + pheight (player g2) \<le> y"
    using checkObstacle_Continue [OF s] Cons.prems(2,3) by auto
  then show ?case using Cons.IH [OF r] by blast
qed

lemma landed_kept_platforms:
  assumes "velocityY (player g) = 0" and "py (player g) + pheight (player g) \<le> y"
  shows "velocityY (player (checkPlatforms ps g)) = 0 \<and>
         py (player (checkPlatforms ps g)) + pheight (player (checkPlatforms ps g)) \<le> y"
  using assms
proof (induction ps arbitrary: g)
  case Nil
  then show ?case by simp
next
  case (Cons p ps)
  show ?case
  proof (cases "landingOnPlatform p g")
    case True
    then have "fy p \<le> py (player g) + pheight (player g)"
      by (simp add: landingOnPlatform_def Let_def)
    then show ?thesis
      using True Cons.prems Cons.IH [of "landOn (fy p) ''#00aaff'' g"] by simp
  next
    case False
    then show ?thesis using Cons.prems Cons.IH [of g] by simp
  qed
qed

lemma block_visit:
  assumes "otype b = Block"
    and "overlapsHorizontally b g" and "0 \<le> velocityY (player g)"
    and "py (player g) + pheight (player g) \<le> oy b + oheight b + 5"
    and "py (player g) + pheight (player g) < oy b \<longrightarrow> velocityY (player g) = 0"
  shows "\<not> returned (checkObstacle b g) \<and>
         velocityY (player (stateOf (checkObstacle b g))) = 0 \<and>
         py (player (stateOf (checkObstacle b g)))
           + pheight (player (stateOf (checkObstacle b g))) \<le> oy b"
proof (cases "landingCondition b g")
  case True
  then show ?thesis
    using assms(1) by (simp add: checkObstacle_def landingOnBlock_iff)
next
  case False
  then have above: "py (player g) + pheight (player g) < oy b"
    using assms(2-4) by (auto simp: landingCondition_def)
  then have "\<not> rectanglesOverlap b g" by (simp add: rectanglesOverlap_def)
  then show ?thesis
    using False above assms(1,5)
    by (simp add: checkObstacle_def landingOnBlock_iff hitsBlock_iff)
qed

lemma block_in_list_lands:
  assumes "checkObstacles obs g = Continue g1" and "b \<in> set obs" and "otype b = Block"
    and "overlapsHorizontally b g" and "0 \<le> velocityY (player g)"
    and "py (player g) + pheight (player g) \<le> oy b + oheight b + 5"
    and "py (player g) + pheight (player g) < oy b \<longrightarrow> velocityY (player g) = 0"
  shows "velocityY (player g1) = 0 \<and> py (player g1) + pheight (player g1) \<le> oy b"
  using assms
proof (induction obs arbitrary: g)
  case Nil
  then show ?case by simp
next
  case (Cons a obs)
  from Cons.prems(1) obtain g2 where s: "checkObstacle a g = Continue g2"
    and r: "checkObstacles obs g2 = Continue g1"
    by (auto split: flow.splits)
  show ?case
  proof (cases "a = b")
    case True
    have "velocityY (player g2) = 0 \<and> py (player g2) + pheight (player g2) \<le> oy b"
      using block_visit [OF Cons.prems(3-7)] s True by simp
    then show ?thesis using landed_kept [OF r] by blast
  next
    case False
    then have m: "b \<in> set obs" using Cons.prems(2) by simp
    have k: "overlapsHorizontally b g2 \<and> 0 \<le> velocityY (player g2) \<and>
        py (player g2) + pheight (player g2) \<le> oy b + oheight b + 5 \<and>
        (py (player g2) + pheight (player g2) < oy b \<longrightarrow> velocityY (player g2) = 0)"
      using landing_kept [of "[a]" g g2 b] s Cons.prems(4-7) by simp
    show ?thesis
      using Cons.IH [OF r m Cons.prems(3)] k by blast
  qed
qed

text \<open>
  C1. Let \<open>b\<close> be a block. On the loop body: with the landing condition, it lands the
  player (bottom edge on the block's top, velocity 0, phase unchanged, the loop goes on),
  whether or not the rectangles overlap; it ends the run exactly when the rectangles
  overlap and the landing condition fails. On the collision engine \<open>checkCollisions\<close>:
  if \<open>b\<close> is the only obstacle and has the landing condition, the engine returns the
  landed state passed through the platform loop, and with no platform the player's bottom
  edge is the block's top and its velocity 0; if \<open>b\<close> is the only obstacle of a Playing
  state, the engine ends the run exactly when the rectangles overlap and the landing
  condition fails; if \<open>b\<close> is anywhere in the obstacle list and has the landing condition
  when the pass starts, the pass never ends the run at \<open>b\<close>, and a pass that no obstacle
  ends leaves the player at rest with its bottom edge on or above the block's top; and a
  pass ends the run of a Playing state exactly when it reaches an obstacle at which the
  loop body ends it.
\<close>

theorem block_landing_before_lethal:
  assumes "otype b = Block"
  shows "(landingCondition b g \<longrightarrow>
            checkObstacle b g = Continue (landOn (oy b) ''#ffaa00'' g) \<and>
            checkObstacles (b # rest) g = checkObstacles rest (landOn (oy b) ''#ffaa00'' g) \<and>
            py (player (stateOf (checkObstacle b g)))
              + pheight (player (stateOf (checkObstacle b g))) = oy b \<and>
            velocityY (player (stateOf (checkObstacle b g))) = 0 \<and>
            gameState (stateOf (checkObstacle b g)) = gameState g) \<and>
         (returned (checkObstacle b g) \<longleftrightarrow> rectanglesOverlap b g \<and> \<not> landingCondition b g) \<and>
         (returned (checkObstacle b g) \<longrightarrow> checkObstacle b g = Return (g\<lparr>gameState := GameOver\<rparr>)) \<and>
         (obstacles g = [b] \<and> landingCondition b g \<longrightarrow>
            checkCollisions g = checkPlatforms (platforms g) (landOn (oy b) ''#ffaa00'' g)) \<and>
         (obstacles g = [b] \<and> platforms g = [] \<and> landingCondition b g \<longrightarrow>
            checkCollisions g = landOn (oy b) ''#ffaa00'' g \<and>
            py (player (checkCollisions g)) = oy b - pheight (player g) \<and>
            py (player (checkCollisions g)) + pheight (player (checkCollisions g)) = oy b \<and>
            velocityY (player (checkCollisions g)) = 0 \<and>
            gameState (checkCollisions g) = gameState g) \<and>
         (obstacles g = [b] \<and> gameState g = Playing \<longrightarrow>
            (gameState (checkCollisions g) = GameOver
               \<longleftrightarrow> rectanglesOverlap b g \<and> \<not> landingCondition b g)) \<and>
         (b \<in> set (obstacles g) \<and> landingCondition b g \<longrightarrow>
            (\<forall>pre post g1. obstacles g = pre @ b # post \<and> checkObstacles pre g = Continue g1
               \<longrightarrow> \<not> returned (checkObstacle b g1)) \<and>
            (\<not> returned (checkObstacles (obstacles g) g) \<longrightarrow>
               velocityY (player (checkCollisions g)) = 0 \<and>
               py (player (checkCollisions g)) + pheight (player (checkCollisions g)) \<le> oy b \<and>
               gameState (checkCollisions g) = gameState g)) \<and>
         (gameState g = Playing \<longrightarrow>
            (gameState (checkCollisions g) = GameOver \<longleftrightarrow>
               (\<exists>pre ob post g1. obstacles g = pre @ ob # post \<and>
                  checkObstacles pre g = Continue g1 \<and> returned (checkObstacle ob g1))))"
proof -
  have body: "landingCondition b g \<longrightarrow>
            checkObstacle b g = Continue (landOn (oy b) ''#ffaa00'' g) \<and>
            checkObstacles (b # rest) g = checkObstacles rest (landOn (oy b) ''#ffaa00'' g) \<and>
            py (player (stateOf (checkObstacle b g)))
              + pheight (player (stateOf (checkObstacle b g))) = oy b \<and>
            velocityY (player (stateOf (checkObstacle b g))) = 0 \<and>
            gameState (stateOf (checkObstacle b g)) = gameState g"
    using assms by (simp add: checkObstacle_def landingOnBlock_iff)
  have lethal: "returned (checkObstacle b g) \<longleftrightarrow> rectanglesOverlap b g \<and> \<not> landingCondition b g"
    using assms by (simp add: checkObstacle_def landingOnBlock_iff hitsBlock_iff)
  have ret: "returned (checkObstacle b g) \<longrightarrow> checkObstacle b g = Return (g\<lparr>gameState := GameOver\<rparr>)"
    using assms by (simp add: checkObstacle_def gameOver_def)
  have single: "obstacles g = [b] \<and> landingCondition b g \<longrightarrow>
            checkCollisions g = checkPlatforms (platforms g) (landOn (oy b) ''#ffaa00'' g)"
    using assms by (simp add: checkCollisions_def checkObstacle_def landingOnBlock_iff)
  have bare: "obstacles g = [b] \<and> platforms g = [] \<and> landingCondition b g \<longrightarrow>
            checkCollisions g = landOn (oy b) ''#ffaa00'' g \<and>
            py (player (checkCollisions g)) = oy b - pheight (player g) \<and>
            py (player (checkCollisions g)) + pheight (player (checkCollisions g)) = oy b \<and>
            velocityY (player (checkCollisions g)) = 0 \<and>
            gameState (checkCollisions g) = gameState g"
    using assms by (simp add: checkCollisions_def checkObstacle_def landingOnBlock_iff)
  have single_lethal: "obstacles g = [b] \<and> gameState g = Playing \<longrightarrow>
            (gameState (checkCollisions g) = GameOver
               \<longleftrightarrow> rectanglesOverlap b g \<and> \<not> landingCondition b g)"
  proof
    assume a: "obstacles g = [b] \<and> gameState g = Playing"
    have "returned (checkObstacles [b] g) = returned (checkObstacle b g)"
      by (cases "checkObstacle b g") simp_all
    then show "gameState (checkCollisions g) = GameOver
               \<longleftrightarrow> rectanglesOverlap b g \<and> \<not> landingCondition b g"
      using checkCollisions_gameOver_iff [of g] a lethal by simp
  qed
  have anywhere: "b \<in> set (obstacles g) \<and> landingCondition b g \<longrightarrow>
            (\<forall>pre post g1. obstacles g = pre @ b # post \<and> checkObstacles pre g = Continue g1
               \<longrightarrow> \<not> returned (checkObstacle b g1)) \<and>
            (\<not> returned (checkObstacles (obstacles g) g) \<longrightarrow>
               velocityY (player (checkCollisions g)) = 0 \<and>
               py (player (checkCollisions g)) + pheight (player (checkCollisions g)) \<le> oy b \<and>
               gameState (checkCollisions g) = gameState g)"
  proof (intro impI conjI allI)
    fix pre post g1
    assume a: "b \<in> set (obstacles g) \<and> landingCondition b g"
      and p: "obstacles g = pre @ b # post \<and> checkObstacles pre g = Continue g1"
    have "overlapsHorizontally b g1 \<and> 0 \<le> velocityY (player g1) \<and>
         py (player g1) + pheight (player g1) \<le> oy b + oheight b + 5 \<and>
         (py (player g1) + pheight (player g1) < oy b \<longrightarrow> velocityY (player g1) = 0)"
      using landing_kept [of pre g g1 b] a p by (simp add: landingCondition_def)
    then show "\<not> returned (checkObstacle b g1)"
      using block_visit [OF assms, of g1] by blast
  next
    assume a: "b \<in> set (obstacles g) \<and> landingCondition b g"
      and n: "\<not> returned (checkObstacles (obstacles g) g)"
    obtain g1 where c: "checkObstacles (obstacles g) g = Continue g1"
      using n by (cases "checkObstacles (obstacles g) g") simp_all
    have l: "velocityY (player g1) = 0 \<and> py (player g1) + pheight (player g1) \<le> oy b"
      using block_in_list_lands [OF c _ assms, of ] a by (simp add: landingCondition_def)
    have e: "checkCollisions g = checkPlatforms (platforms g1) g1"
      using c by (simp add: checkCollisions_def)
    show "velocityY (player (checkCollisions g)) = 0"
      and "py (player (checkCollisions g)) + pheight (player (checkCollisions g)) \<le> oy b"
      using landed_kept_platforms [of g1 "oy b" "platforms g1"] l e by simp_all
    have "gameState g1 = gameState g"
      using checkObstacles_gameState [of "obstacles g" g] c by simp
    then show "gameState (checkCollisions g) = gameState g"
      using e by simp
  qed
  have pass: "gameState g = Playing \<longrightarrow>
            (gameState (checkCollisions g) = GameOver \<longleftrightarrow>
               (\<exists>pre ob post g1. obstacles g = pre @ ob # post \<and>
                  checkObstacles pre g = Continue g1 \<and> returned (checkObstacle ob g1)))"
    using checkCollisions_gameOver_iff [of g] checkObstacles_returned_iff [of "obstacles g" g]
    by simp
  from body lethal ret single bare single_lethal anywhere pass show ?thesis
    by (intro conjI)
qed

text \<open>
  In \<open>fallingOnBlock\<close> the landing condition holds and the rectangles overlap too: the
  engine puts the player at y = 440, the block's top 480 less the player's height, at
  velocity 0, and the phase stays Playing. In \<open>sideHit\<close> the rectangles overlap and the
  bottom edge is below the landing window: the engine ends the run.
\<close>

theorem block_landing_before_lethal_witness:
  "otype (hd (obstacles fallingOnBlock)) = Block \<and>
   obstacles fallingOnBlock = [hd (obstacles fallingOnBlock)] \<and>
   platforms fallingOnBlock = [] \<and>
   landingCondition (hd (obstacles fallingOnBlock)) fallingOnBlock \<and>
   rectanglesOverlap (hd (obstacles fallingOnBlock)) fallingOnBlock \<and>
   py (player fallingOnBlock) = 450 \<and> velocityY (player fallingOnBlock) = 3 \<and>
   py (player (checkCollisions fallingOnBlock)) = 440 \<and>
   velocityY (player (checkCollisions fallingOnBlock)) = 0 \<and>
   gameState (checkCollisions fallingOnBlock) = Playing \<and>
   \<not> returned (checkObstacles (obstacles fallingOnBlock) fallingOnBlock) \<and>
   otype (hd (obstacles sideHit)) = Block \<and>
   obstacles sideHit = [hd (obstacles sideHit)] \<and> gameState sideHit = Playing \<and>
   rectanglesOverlap (hd (obstacles sideHit)) sideHit \<and>
   \<not> landingCondition (hd (obstacles sideHit)) sideHit \<and>
   gameState (checkCollisions sideHit) = GameOver"
proof -
  let ?b = "hd (obstacles fallingOnBlock)"
  let ?s = "hd (obstacles sideHit)"
  have a: "otype ?b = Block" "obstacles fallingOnBlock = [?b]" "platforms fallingOnBlock = []"
    by (simp_all add: fallingOnBlock_def idleSession_def startGame_def constructor_def)
  have b: "landingCondition ?b fallingOnBlock"
    by (simp add: fallingOnBlock_def idleSession_def startGame_def constructor_def
        landingCondition_def overlapsHorizontally_def)
  have c: "rectanglesOverlap ?b fallingOnBlock"
    by (simp add: fallingOnBlock_def idleSession_def startGame_def constructor_def
        rectanglesOverlap_def overlapsHorizontally_def)
  have d: "oy ?b = 480" "pheight (player fallingOnBlock) = 40"
    "gameState fallingOnBlock = Playing"
    "py (player fallingOnBlock) = 450" "velocityY (player fallingOnBlock) = 3"
    by (simp_all add: fallingOnBlock_def idleSession_def startGame_def constructor_def)
  have m: "?b \<in> set (obstacles fallingOnBlock)"
    by (simp add: fallingOnBlock_def)
  have e: "otype ?s = Block" "obstacles sideHit = [?s]" "gameState sideHit = Playing"
    by (simp_all add: sideHit_def idleSession_def startGame_def constructor_def)
  have f: "rectanglesOverlap ?s sideHit"
    by (simp add: sideHit_def idleSession_def startGame_def constructor_def
        rectanglesOverlap_def overlapsHorizontally_def)
  have h: "\<not> landingCondition ?s sideHit"
    by (simp add: sideHit_def idleSession_def startGame_def constructor_def
        landingCondition_def overlapsHorizontally_def)
  have n: "\<not> returned (checkObstacles (obstacles fallingOnBlock) fallingOnBlock)"
    using block_landing_before_lethal [OF a(1), of fallingOnBlock "[]"] a(2) b
    by (metis append_Nil checkObstacles.simps(1) checkObstacles_returned_iff
        checkCollisions_gameOver_iff d(3) phase.distinct(5))
  have landed: "py (player (checkCollisions fallingOnBlock)) = 440"
    "velocityY (player (checkCollisions fallingOnBlock)) = 0"
    "gameState (checkCollisions fallingOnBlock) = Playing"
    using block_landing_before_lethal [OF a(1), of fallingOnBlock "[]"] a b d by simp_all
  have dead: "gameState (checkCollisions sideHit) = GameOver"
    using block_landing_before_lethal [OF e(1), of sideHit "[]"] e f h by simp
  from a b c d e f h n landed dead show ?thesis by simp
qed

subsection \<open>Scrolling, culling and the score\<close>

lemma updateObstaclesLoop_eq:
  "i \<le> length (obstacles g) \<Longrightarrow>
   updateObstaclesLoop i g =
     g\<lparr>obstacles :=
          filter (\<lambda>b. \<not> ox b + owidth b < cameraX g)
            (map (\<lambda>b. b\<lparr>ox := ox b - gameSpeed g\<rparr>) (take i (obstacles g)))
          @ drop i (obstacles g),
        score := score g + 10 * int (length (filter (\<lambda>b. ox b + owidth b < cameraX g)
            (map (\<lambda>b. b\<lparr>ox := ox b - gameSpeed g\<rparr>) (take i (obstacles g)))))\<rparr>"
proof (induction i arbitrary: g)
  case 0
  show ?case by simp
next
  case (Suc i)
  then have lt: "i < length (obstacles g)" by simp
  let ?b = "(obstacles g ! i)\<lparr>ox := ox (obstacles g ! i) - gameSpeed g\<rparr>"
  have tk: "take (Suc i) (obstacles g) = take i (obstacles g) @ [obstacles g ! i]"
    using lt by (simp add: take_Suc_conv_app_nth)
  show ?case
  proof (cases "ox ?b + owidth ?b < cameraX g")
    case True
    let ?g' = "g\<lparr>obstacles := take i (obstacles g) @ drop (Suc i) (obstacles g),
                 score := score g + 10\<rparr>"
    have le: "i \<le> length (obstacles ?g')" using lt by simp
    have step: "updateObstaclesLoop (Suc i) g = updateObstaclesLoop i ?g'"
      using True lt by (simp add: Let_def)
    show ?thesis
      unfolding step Suc.IH [OF le] tk using True lt by simp
  next
    case False
    let ?g' = "g\<lparr>obstacles := (obstacles g)[i := ?b]\<rparr>"
    have le: "i \<le> length (obstacles ?g')" using lt by simp
    have step: "updateObstaclesLoop (Suc i) g = updateObstaclesLoop i ?g'"
      using False by (simp add: Let_def)
    show ?thesis
      unfolding step Suc.IH [OF le] tk using False lt
      by (simp add: drop_update_cancel Cons_nth_drop_Suc [symmetric] upd_conv_take_nth_drop)
  qed
qed

lemma updatePlatformsLoop_eq:
  "i \<le> length (platforms g) \<Longrightarrow>
   updatePlatformsLoop i g =
     g\<lparr>platforms :=
          filter (\<lambda>p. \<not> fx p + fwidth p < cameraX g)
            (map (\<lambda>p. p\<lparr>fx := fx p - gameSpeed g\<rparr>) (take i (platforms g)))
          @ drop i (platforms g)\<rparr>"
proof (induction i arbitrary: g)
  case 0
  show ?case by simp
next
  case (Suc i)
  then have lt: "i < length (platforms g)" by simp
  let ?p = "(platforms g ! i)\<lparr>fx := fx (platforms g ! i) - gameSpeed g\<rparr>"
  have tk: "take (Suc i) (platforms g) = take i (platforms g) @ [platforms g ! i]"
    using lt by (simp add: take_Suc_conv_app_nth)
  show ?case
  proof (cases "fx ?p + fwidth ?p < cameraX g")
    case True
    let ?g' = "g\<lparr>platforms := take i (platforms g) @ drop (Suc i) (platforms g)\<rparr>"
    have le: "i \<le> length (platforms ?g')" using lt by simp
    have step: "updatePlatformsLoop (Suc i) g = updatePlatformsLoop i ?g'"
      using True lt by (simp add: Let_def)
    show ?thesis
      unfolding step Suc.IH [OF le] tk using True lt by simp
  next
    case False
    let ?g' = "g\<lparr>platforms := (platforms g)[i := ?p]\<rparr>"
    have le: "i \<le> length (platforms ?g')" using lt by simp
    have step: "updatePlatformsLoop (Suc i) g = updatePlatformsLoop i ?g'"
      using False by (simp add: Let_def)
    show ?thesis
      unfolding step Suc.IH [OF le] tk using False lt
      by (simp add: drop_update_cancel Cons_nth_drop_Suc [symmetric] upd_conv_take_nth_drop)
  qed
qed

lemma updateObstacles_eq:
  "updateObstacles g =
     g\<lparr>obstacles :=
          map (\<lambda>b. b\<lparr>ox := ox b - gameSpeed g\<rparr>)
            (filter (\<lambda>b. \<not> ox b - gameSpeed g + owidth b < cameraX g) (obstacles g)),
        score := score g + 10 * int (length
            (filter (\<lambda>b. ox b - gameSpeed g + owidth b < cameraX g) (obstacles g))),
        platforms :=
          map (\<lambda>p. p\<lparr>fx := fx p - gameSpeed g\<rparr>)
            (filter (\<lambda>p. \<not> fx p - gameSpeed g + fwidth p < cameraX g) (platforms g))\<rparr>"
  by (simp add: updateObstacles_def Let_def updateObstaclesLoop_eq updatePlatformsLoop_eq
      filter_map comp_def)

text \<open>
  C5. One pass of \<open>updateObstacles\<close>: the score grows by 10 for each obstacle whose right
  edge, after the scroll, is behind the camera offset; exactly these obstacles leave the
  list, so the gain is 10 times the number of obstacles removed; the platforms behind the
  camera leave their list without any effect on the score; what stays is unchanged but
  for its x, which has dropped by the speed, and keeps its order.
\<close>

theorem cull_scores_ten_per_obstacle:
  "score (updateObstacles g) =
     score g + 10 * int (length
        (filter (\<lambda>b. ox b - gameSpeed g + owidth b < cameraX g) (obstacles g))) \<and>
   score (updateObstacles g) =
     score g + 10 * (int (length (obstacles g)) - int (length (obstacles (updateObstacles g)))) \<and>
   obstacles (updateObstacles g) =
     map (\<lambda>b. b\<lparr>ox := ox b - gameSpeed g\<rparr>)
       (filter (\<lambda>b. \<not> ox b - gameSpeed g + owidth b < cameraX g) (obstacles g)) \<and>
   platforms (updateObstacles g) =
     map (\<lambda>p. p\<lparr>fx := fx p - gameSpeed g\<rparr>)
       (filter (\<lambda>p. \<not> fx p - gameSpeed g + fwidth p < cameraX g) (platforms g))"
proof -
  have "length (obstacles g) =
          length (filter (\<lambda>b. ox b - gameSpeed g + owidth b < cameraX g) (obstacles g))
          + length (filter (\<lambda>b. \<not> ox b - gameSpeed g + owidth b < cameraX g) (obstacles g))"
    by (rule sum_length_filter_compl [symmetric])
  then show ?thesis
    unfolding updateObstacles_eq by simp
qed

theorem cull_scores_ten_per_obstacle_witness:
  "score cullSample = 70 \<and> score (updateObstacles cullSample) = 80 \<and>
   obstacles (updateObstacles cullSample) =
     [\<lparr>ox = 695, oy = 480, owidth = 40, oheight = 60, otype = Block, ocolor = ''#ffaa00''\<rparr>] \<and>
   platforms (updateObstacles cullSample) =
     [\<lparr>fx = 895, fy = 400, fwidth = 120, fheight = 20, fcolor = ''#00aaff''\<rparr>]"
  using cull_scores_ten_per_obstacle [of cullSample]
  by (simp add: cullSample_def idleSession_def startGame_def constructor_def)

subsection \<open>Where the spawn planner puts new entities\<close>

lemma spawnDouble_spawn:
  "generateObstacles spawnDouble =
     Inr (spawnDouble\<lparr>randomCount := 4,
            obstacles := [newSpike 1100 520, newSpike 1150 520]\<rparr>)"
  by (simp add: spawnDouble_def doubleDraws_def startGame_def constructor_def
      generateObstacles_def generateSpike_def Math_random_def Let_def arrayAt_def
      getSpikePositions_def)

text \<open>
  C9 as stated fails: in \<open>spawnDouble\<close> the camera offset plus the viewport width is
  1100, and the second spike of the double pattern is created at 1150.
\<close>

theorem spawn_x_counterexample:
  "cameraX spawnDouble + gameWidth spawnDouble = 1100 \<and>
   obstacles spawnDouble = [] \<and>
   generateObstacles spawnDouble = Inr (projr (generateObstacles spawnDouble)) \<and>
   map ox (obstacles (projr (generateObstacles spawnDouble))) = [1100, 1150] \<and>
   map otype (obstacles (projr (generateObstacles spawnDouble))) = [Spike, Spike]"
  unfolding spawnDouble_spawn
  by (simp add: spawnDouble_def startGame_def constructor_def newSpike_def)

text \<open>
  C9, as amended. What \<open>generateObstacles\<close> emits is appended to the two lists, and it is
  one block, or one platform, or a pattern of one, two or three spikes, or nothing. A
  block, a platform and the first spike of a pattern are created at the sum
  \<open>this.gameWidth + this.cameraX\<close>, the second spike of a pattern at that sum plus 50 and
  the third at that sum plus 100. Nothing is said of the screen x at creation: the sum is
  the one the program computes, and whether taking the camera offset away again gives at
  least the viewport width depends on how the sum is rounded.
\<close>

theorem spawn_x_offsets:
  assumes "generateObstacles g = Inr g'"
  shows "\<exists>new newp.
           obstacles g' = obstacles g @ new \<and> platforms g' = platforms g @ newp \<and>
           gameWidth g' = gameWidth g \<and> cameraX g' = cameraX g \<and>
           (new = [] \<or> newp = []) \<and>
           map ox new \<in> {[], [gameWidth g + cameraX g],
                [gameWidth g + cameraX g, gameWidth g + cameraX g + 50],
                [gameWidth g + cameraX g, gameWidth g + cameraX g + 50,
                 gameWidth g + cameraX g + 100]} \<and>
           (length new > 1 \<longrightarrow> list_all (\<lambda>b. otype b = Spike) new) \<and>
           map fx newp \<in> {[], [gameWidth g + cameraX g]}"
  using assms
  by (auto simp: generateObstacles_def generateSpike_def generateBlock_def generatePlatform_def
        Math_random_def Let_def split_def newSpike_def
        split: option.splits featureType.splits if_splits)

theorem spawn_x_offsets_witness:
  "generateObstacles spawnDouble = Inr (projr (generateObstacles spawnDouble)) \<and>
   obstacles spawnDouble = [] \<and>
   gameWidth spawnDouble + cameraX spawnDouble = 1100 \<and>
   obstacles (projr (generateObstacles spawnDouble)) = [newSpike 1100 520, newSpike 1150 520] \<and>
   map ox (obstacles (projr (generateObstacles spawnDouble)))
     = [gameWidth spawnDouble + cameraX spawnDouble,
        gameWidth spawnDouble + cameraX spawnDouble + 50] \<and>
   list_all (\<lambda>b. otype b = Spike) (obstacles (projr (generateObstacles spawnDouble))) \<and>
   platforms (projr (generateObstacles spawnDouble)) = []"
proof -
  have a: "generateObstacles spawnDouble = Inr (projr (generateObstacles spawnDouble))"
    unfolding spawnDouble_spawn by simp
  have b: "obstacles (projr (generateObstacles spawnDouble))
             = [newSpike 1100 520, newSpike 1150 520]"
    unfolding spawnDouble_spawn by simp
  have c: "obstacles spawnDouble = []" "platforms spawnDouble = []"
    "gameWidth spawnDouble + cameraX spawnDouble = 1100"
    by (simp_all add: spawnDouble_def startGame_def constructor_def)
  from spawn_x_offsets [OF a] a b c show ?thesis
    by (auto simp: newSpike_def)
qed

subsection \<open>The triangle of a spike is not degenerate\<close>

lemma barycentricDenominator_spike:
  "barycentricDenominator (trianglePoints b g) = owidth b * oheight b"
  by (simp add: barycentricDenominator_def trianglePoints_def Let_def)

lemma generateObstacles_spikes:
  assumes "generateObstacles g = Inr g'" and "spikesWellFormed g"
  shows "spikesWellFormed g'"
  using assms
  by (auto simp: generateObstacles_def generateSpike_def generateBlock_def generatePlatform_def
        Math_random_def Let_def split_def newSpike_def spikesWellFormed_def
        split: option.splits featureType.splits if_splits)

lemma updateObstacles_spikes:
  assumes "spikesWellFormed g"
  shows "spikesWellFormed (updateObstacles g)"
  using assms unfolding updateObstacles_eq
  by (auto simp: spikesWellFormed_def list_all_iff)

lemma spikesWellFormed_cong:
  "obstacles g' = obstacles g \<Longrightarrow> spikesWellFormed g' = spikesWellFormed g"
  by (simp add: spikesWellFormed_def)

lemma update_spikes:
  assumes "update t g = Inr g'" and "spikesWellFormed g"
  shows "spikesWellFormed g'"
proof (cases "gameState g = Playing")
  case False
  then show ?thesis using assms by (simp add: update_def)
next
  case True
  let ?g0 = "g\<lparr>autoMode := (case keys g ''KeyA'' of Some b \<Rightarrow> b | None \<Rightarrow> False)\<rparr>"
  obtain g2 where g2: "generateObstacles (updatePlayer ?g0) = Inr g2"
    and g': "g' = (let g6 = updateCamera (checkCollisions (updateParticles (updateObstacles g2)))
                   in if autoMode g6 then autoJump t g6 else g6)"
    using update_steps [OF True assms(1)] by blast
  have "spikesWellFormed (updatePlayer ?g0)"
    using assms(2) by (simp add: spikesWellFormed_def)
  then have "spikesWellFormed (updateObstacles g2)"
    using generateObstacles_spikes [OF g2] updateObstacles_spikes by blast
  moreover have "obstacles g' = obstacles (updateObstacles g2)"
    using g' by (simp add: Let_def)
  ultimately show ?thesis using spikesWellFormed_cong by blast
qed

lemma handle_spikes:
  assumes "handle e g = Inr g'" and "spikesWellFormed g"
  shows "spikesWellFormed g'"
proof (cases e)
  case (Frame t)
  then show ?thesis using assms update_spikes by simp
qed (use assms in \<open>auto simp: spikesWellFormed_def Let_def startGame_def restartGame_def
        resizeCanvas_def split: if_splits\<close>)

lemma run_spikes:
  "run es g = Inr g' \<Longrightarrow> spikesWellFormed g \<Longrightarrow> spikesWellFormed g'"
proof (induction es arbitrary: g)
  case Nil
  then show ?case by simp
next
  case (Cons e es)
  from Cons.prems(1) obtain g1 where h: "handle e g = Inr g1" and r: "run es g1 = Inr g'"
    by (auto split: sum.splits)
  show ?case using Cons.IH [OF r] handle_spikes [OF h Cons.prems(2)] by simp
qed

text \<open>
  C10. The denominator of \<open>pointInTriangle\<close> for the triangle that \<open>checkSpikeCollision\<close>
  builds from an obstacle is the obstacle's width times its height. In every state that a
  session reaches from its construction, every spike of the obstacle list is 40 by 40, so
  the denominator is 1600 and the division is by a number other than zero, whatever the
  camera offset at which the triangle is built.
\<close>

theorem spike_triangle_denominator_nonzero:
  assumes "run es (constructor w h rnd) = Inr g"
    and "b \<in> set (obstacles g)" and "otype b = Spike"
  shows "owidth b = 40 \<and> oheight b = 40 \<and>
         barycentricDenominator (trianglePoints b g2) = 1600 \<and>
         barycentricDenominator (trianglePoints b g2) \<noteq> 0"
proof -
  have "spikesWellFormed (constructor w h rnd)"
    by (simp add: spikesWellFormed_def constructor_def)
  then have "spikesWellFormed g" using run_spikes [OF assms(1)] by simp
  then have "owidth b = 40 \<and> oheight b = 40"
    using assms(2,3) by (auto simp: spikesWellFormed_def list_all_iff)
  then show ?thesis by (simp add: barycentricDenominator_spike)
qed

lemma first_spawn:
  "run [ClickStart, Frame 0] (constructor 800 600 doubleDraws) =
     Inr ((constructor 800 600 doubleDraws)
       \<lparr>gameState := Playing, randomCount := 4, gameSpeed := 5001 / 1000, cameraX := 5,
        player := \<lparr>px = 100, py = 4 / 5, pwidth = 40, pheight = 40, velocityY = 4 / 5,
                    isGrounded = False, rotation = 1 / 5, pcolor = ''#00ff88''\<rparr>,
        obstacles := [newSpike 795 520, newSpike 845 520]\<rparr>)"
  by (simp add: doubleDraws_def tick_eval spike_eval)

theorem spike_triangle_denominator_nonzero_witness:
  "run [ClickStart, Frame 0] (constructor 800 600 doubleDraws)
     = Inr (projr (run [ClickStart, Frame 0] (constructor 800 600 doubleDraws))) \<and>
   newSpike 845 520
     \<in> set (obstacles (projr (run [ClickStart, Frame 0] (constructor 800 600 doubleDraws)))) \<and>
   otype (newSpike 845 520) = Spike \<and>
   barycentricDenominator
     (trianglePoints (newSpike 845 520)
        (projr (run [ClickStart, Frame 0] (constructor 800 600 doubleDraws)))) = 1600"
proof -
  have a: "run [ClickStart, Frame 0] (constructor 800 600 doubleDraws)
             = Inr (projr (run [ClickStart, Frame 0] (constructor 800 600 doubleDraws)))"
    unfolding first_spawn by simp
  have b: "newSpike 845 520
     \<in> set (obstacles (projr (run [ClickStart, Frame 0] (constructor 800 600 doubleDraws))))"
    unfolding first_spawn by simp
  have c: "otype (newSpike 845 520) = Spike" by (simp add: newSpike_def)
  from spike_triangle_denominator_nonzero [OF a b c] a b c show ?thesis by blast
qed

subsection \<open>Autoplay: grounded and cooled down\<close>

lemma autoJump_cases:
  "autoJump t g = g \<or>
   (autoJump t g = autoJumpNow t g \<and> isGrounded (player g) \<and>
    autoJumpCooldown g \<le> t - lastAutoJumpTime g)"
  by (auto simp: autoJump_def Let_def)

lemma autoJumpNow_log:
  "autoJumpLog (autoJumpNow t g) = autoJumpLog g @ [(t, isGrounded (player g))]"
  "lastAutoJumpTime (autoJumpNow t g) = t"
  by (simp_all add: autoJumpNow_def Let_def)

lemma autoJumpsSpaced_cong:
  assumes "autoJumpCooldown g' = autoJumpCooldown g" and "autoJumpLog g' = autoJumpLog g"
    and "lastAutoJumpTime g' = lastAutoJumpTime g"
  shows "autoJumpsSpaced g' = autoJumpsSpaced g"
  using assms by (simp add: autoJumpsSpaced_def)

lemma autoJumpNow_spaced:
  assumes "autoJumpsSpaced g" and "isGrounded (player g)"
    and "autoJumpCooldown g \<le> t - lastAutoJumpTime g"
  shows "autoJumpsSpaced (autoJumpNow t g)"
proof -
  have c: "0 \<le> autoJumpCooldown g"
    and l: "list_all snd (autoJumpLog g)"
    and s: "sorted_wrt (\<lambda>a b. autoJumpCooldown g \<le> b - a) (map fst (autoJumpLog g))"
    and b: "list_all (\<lambda>a. a \<le> lastAutoJumpTime g) (map fst (autoJumpLog g))"
    using assms(1) by (simp_all add: autoJumpsSpaced_def)
  have far: "autoJumpCooldown g \<le> t - a" if "a \<in> set (map fst (autoJumpLog g))" for a
  proof -
    have "a \<le> lastAutoJumpTime g" using b that by (auto simp: list_all_iff)
    then show ?thesis using assms(3) by simp
  qed
  have "sorted_wrt (\<lambda>a b. autoJumpCooldown g \<le> b - a) (map fst (autoJumpLog g) @ [t])"
    using s far by (simp add: sorted_wrt_append)
  moreover have "list_all (\<lambda>a. a \<le> t) (map fst (autoJumpLog g) @ [t])"
    using far c by (fastforce simp: list_all_iff)
  ultimately show ?thesis
    using c l assms(2) by (simp add: autoJumpsSpaced_def autoJumpNow_log)
qed

lemma autoJump_spaced:
  assumes "autoJumpsSpaced g"
  shows "autoJumpsSpaced (autoJump t g)"
  using autoJump_cases [of t g] autoJumpNow_spaced [OF assms, of t] assms by auto

lemma update_spaced:
  assumes "update t g = Inr g'" and "autoJumpsSpaced g"
  shows "autoJumpsSpaced g'"
proof (cases "gameState g = Playing")
  case False
  then show ?thesis using assms by (simp add: update_def)
next
  case True
  let ?g0 = "g\<lparr>autoMode := (case keys g ''KeyA'' of Some b \<Rightarrow> b | None \<Rightarrow> False)\<rparr>"
  obtain g2 where g2: "generateObstacles (updatePlayer ?g0) = Inr g2"
    and g': "g' = (let g6 = updateCamera (checkCollisions (updateParticles (updateObstacles g2)))
                   in if autoMode g6 then autoJump t g6 else g6)"
    using update_steps [OF True assms(1)] by blast
  let ?g6 = "updateCamera (checkCollisions (updateParticles (updateObstacles g2)))"
  have "autoJumpCooldown ?g6 = autoJumpCooldown g" "autoJumpLog ?g6 = autoJumpLog g"
    "lastAutoJumpTime ?g6 = lastAutoJumpTime g"
    using generateObstacles_frame [OF g2] by simp_all
  then have "autoJumpsSpaced ?g6"
    using assms(2) autoJumpsSpaced_cong by blast
  then show ?thesis using g' autoJump_spaced by (simp add: Let_def)
qed

lemma handle_spaced:
  assumes "handle e g = Inr g'" and "autoJumpsSpaced g"
  shows "autoJumpsSpaced g'"
proof (cases e)
  case (Frame t)
  then show ?thesis using assms update_spaced by simp
qed (use assms in \<open>auto simp: autoJumpsSpaced_def Let_def startGame_def restartGame_def
        resizeCanvas_def split: if_splits\<close>)

lemma run_spaced:
  "run es g = Inr g' \<Longrightarrow> autoJumpsSpaced g \<Longrightarrow> autoJumpsSpaced g'"
proof (induction es arbitrary: g)
  case Nil
  then show ?case by simp
next
  case (Cons e es)
  from Cons.prems(1) obtain g1 where h: "handle e g = Inr g1" and r: "run es g1 = Inr g'"
    by (auto split: sum.splits)
  show ?case using Cons.IH [OF r] handle_spaced [OF h Cons.prems(2)] by simp
qed

lemma update_cooldown:
  assumes "update t g = Inr g'"
  shows "autoJumpCooldown g' = autoJumpCooldown g"
proof (cases "gameState g = Playing")
  case False
  then show ?thesis using assms by (simp add: update_def)
next
  case True
  let ?g0 = "g\<lparr>autoMode := (case keys g ''KeyA'' of Some b \<Rightarrow> b | None \<Rightarrow> False)\<rparr>"
  obtain g2 where g2: "generateObstacles (updatePlayer ?g0) = Inr g2"
    and g': "g' = (let g6 = updateCamera (checkCollisions (updateParticles (updateObstacles g2)))
                   in if autoMode g6 then autoJump t g6 else g6)"
    using update_steps [OF True assms(1)] by blast
  have "autoJumpCooldown g2 = autoJumpCooldown g"
    using generateObstacles_frame [OF g2] by simp
  then show ?thesis using g' by (simp add: Let_def)
qed

lemma handle_cooldown:
  assumes "handle e g = Inr g'"
  shows "autoJumpCooldown g' = autoJumpCooldown g"
proof (cases e)
  case (Frame t)
  then show ?thesis using assms update_cooldown by simp
qed (use assms in \<open>auto simp: Let_def startGame_def restartGame_def
        resizeCanvas_def split: if_splits\<close>)

lemma run_cooldown:
  "run es g = Inr g' \<Longrightarrow> autoJumpCooldown g' = autoJumpCooldown g"
proof (induction es arbitrary: g)
  case Nil
  then show ?case by simp
next
  case (Cons e es)
  from Cons.prems(1) obtain g1 where h: "handle e g = Inr g1" and r: "run es g1 = Inr g'"
    by (auto split: sum.splits)
  show ?case using Cons.IH [OF r] handle_cooldown [OF h] by simp
qed

text \<open>
  The flag that \<open>autoJump\<close> tests is the one \<open>updatePlayer\<close> set at the start of the
  tick: the surface test on the player as moved by gravity, against the obstacles and the
  camera offset as they were before this tick's scroll. No later step of the tick sets it.
\<close>

lemma updatePlayer_flag:
  "isGrounded (player (updatePlayer g)) = checkIfGrounded (updatePlayer g)"
  by (simp add: updatePlayer_def checkIfGrounded_def Let_def)

lemma checkObstacles_isGrounded:
  "isGrounded (player (stateOf (checkObstacles obs g))) = isGrounded (player g)"
proof (induction obs arbitrary: g)
  case Nil
  show ?case by simp
next
  case (Cons a obs)
  have "isGrounded (player (stateOf (checkObstacle a g))) = isGrounded (player g)"
    by (simp add: checkObstacle_def gameOver_def)
  then show ?case using Cons.IH by (cases "checkObstacle a g") simp_all
qed

lemma checkPlatforms_isGrounded:
  "isGrounded (player (checkPlatforms ps g)) = isGrounded (player g)"
  by (induction ps arbitrary: g) simp_all

lemma checkCollisions_isGrounded:
  "isGrounded (player (checkCollisions g)) = isGrounded (player g)"
  using checkObstacles_isGrounded [of "obstacles g" g]
  by (cases "checkObstacles (obstacles g) g")
    (simp_all add: checkCollisions_def checkPlatforms_isGrounded)

lemma update_flag:
  assumes "gameState g = Playing" and "update t g = Inr g'"
  shows "\<exists>g2. generateObstacles
                (updatePlayer
                  (g\<lparr>autoMode := (case keys g ''KeyA'' of Some b \<Rightarrow> b | None \<Rightarrow> False)\<rparr>))
              = Inr g2 \<and>
              g' = (let g6 = updateCamera (checkCollisions (updateParticles (updateObstacles g2)))
                    in if autoMode g6 then autoJump t g6 else g6) \<and>
              isGrounded (player (updateCamera
                  (checkCollisions (updateParticles (updateObstacles g2)))))
                = checkIfGrounded
                    (updatePlayer
                      (g\<lparr>autoMode :=
                           (case keys g ''KeyA'' of Some b \<Rightarrow> b | None \<Rightarrow> False)\<rparr>))"
proof -
  let ?g1 = "updatePlayer
               (g\<lparr>autoMode := (case keys g ''KeyA'' of Some b \<Rightarrow> b | None \<Rightarrow> False)\<rparr>)"
  obtain g2 where g2: "generateObstacles ?g1 = Inr g2"
    and g': "g' = (let g6 = updateCamera (checkCollisions (updateParticles (updateObstacles g2)))
                   in if autoMode g6 then autoJump t g6 else g6)"
    using update_steps [OF assms] by blast
  have "player g2 = player ?g1"
    using generateObstacles_frame [OF g2] by simp
  then have "isGrounded (player (updateCamera
                (checkCollisions (updateParticles (updateObstacles g2)))))
               = isGrounded (player ?g1)"
    by (simp add: checkCollisions_isGrounded)
  then show ?thesis using g2 g' updatePlayer_flag [of "g\<lparr>autoMode :=
        (case keys g ''KeyA'' of Some b \<Rightarrow> b | None \<Rightarrow> False)\<rparr>"] by blast
qed

text \<open>
  C7, as amended. A call of \<open>autoJump\<close> with the \<open>isGrounded\<close> flag unset, or less than
  the cooldown after \<open>lastAutoJumpTime\<close>, changes nothing: no jump is issued. The flag
  which the call made by a tick sees is the surface test that \<open>updatePlayer\<close> evaluated at
  the start of that tick. Over any run of a session from its construction, every jump
  that autoplay issued was issued with the flag set, and of any two of them the later came
  at least the cooldown, 800 ms, after the earlier.
\<close>

theorem autoplay_flag_and_cooldown:
  "(\<not> isGrounded (player g0) \<longrightarrow> autoJump t g0 = g0) \<and>
   (t - lastAutoJumpTime g0 < autoJumpCooldown g0 \<longrightarrow> autoJump t g0 = g0) \<and>
   isGrounded (player (updatePlayer g0)) = checkIfGrounded (updatePlayer g0) \<and>
   (gameState g0 = Playing \<and> update t g0 = Inr g1 \<longrightarrow>
      (\<exists>g2. generateObstacles
                (updatePlayer
                  (g0\<lparr>autoMode := (case keys g0 ''KeyA'' of Some b \<Rightarrow> b | None \<Rightarrow> False)\<rparr>))
              = Inr g2 \<and>
              g1 = (let g6 = updateCamera (checkCollisions (updateParticles (updateObstacles g2)))
                    in if autoMode g6 then autoJump t g6 else g6) \<and>
              isGrounded (player (updateCamera
                  (checkCollisions (updateParticles (updateObstacles g2)))))
                = checkIfGrounded
                    (updatePlayer
                      (g0\<lparr>autoMode :=
                            (case keys g0 ''KeyA'' of Some b \<Rightarrow> b | None \<Rightarrow> False)\<rparr>)))) \<and>
   (run es (constructor w h rnd) = Inr g \<longrightarrow>
      list_all snd (autoJumpLog g) \<and>
      sorted_wrt (\<lambda>a b. 800 \<le> b - a) (map fst (autoJumpLog g)))"
proof (intro conjI impI)
  show "autoJump t g0 = g0" if "\<not> isGrounded (player g0)"
    using that by (simp add: autoJump_def)
  show "autoJump t g0 = g0" if "t - lastAutoJumpTime g0 < autoJumpCooldown g0"
    using that by (simp add: autoJump_def)
  show "isGrounded (player (updatePlayer g0)) = checkIfGrounded (updatePlayer g0)"
    by (rule updatePlayer_flag)
next
  assume "gameState g0 = Playing \<and> update t g0 = Inr g1"
  then show "\<exists>g2. generateObstacles
                (updatePlayer
                  (g0\<lparr>autoMode := (case keys g0 ''KeyA'' of Some b \<Rightarrow> b | None \<Rightarrow> False)\<rparr>))
              = Inr g2 \<and>
              g1 = (let g6 = updateCamera (checkCollisions (updateParticles (updateObstacles g2)))
                    in if autoMode g6 then autoJump t g6 else g6) \<and>
              isGrounded (player (updateCamera
                  (checkCollisions (updateParticles (updateObstacles g2)))))
                = checkIfGrounded
                    (updatePlayer
                      (g0\<lparr>autoMode :=
                            (case keys g0 ''KeyA'' of Some b \<Rightarrow> b | None \<Rightarrow> False)\<rparr>))"
    using update_flag [of g0 t g1] by blast
next
  assume r: "run es (constructor w h rnd) = Inr g"
  have "autoJumpsSpaced (constructor w h rnd)"
    by (simp add: autoJumpsSpaced_def constructor_def)
  then have s: "autoJumpsSpaced g" using run_spaced [OF r] by simp
  have c: "autoJumpCooldown g = 800"
    using run_cooldown [OF r] by (simp add: constructor_def)
  show "list_all snd (autoJumpLog g)" using s by (simp add: autoJumpsSpaced_def)
  show "sorted_wrt (\<lambda>a b. 800 \<le> b - a) (map fst (autoJumpLog g))"
    using s c by (simp add: autoJumpsSpaced_def)
qed

lemma run_append:
  "run (es @ es') g = (case run es g of Inl err \<Rightarrow> Inl err | Inr g' \<Rightarrow> run es' g')"
  by (induction es arbitrary: g) (auto split: sum.splits)

lemma addParticles_unfold:
  "addParticles x y c g =
     addParticlesLoop (Suc (Suc (Suc (Suc (Suc (Suc (Suc (Suc 0)))))))) x y c g"
  by (simp add: addParticles_def eval_nat_numeral)

lemmas autoplay_eval = tick_eval resizeCanvas_def restartGame_def autoJump_def autoJumpNow_def
  jump_def addParticles_unfold

lemma autoplayRun_1:
  "run [ClickStart, KeyDown ''KeyA'', Resize 800 600] (constructor 800 600 (\<lambda>n. 1 / 2))
     = Inr heldA"
  by (simp add: heldA_def startGame_def constructor_def resizeCanvas_def)

lemma autoplayRun_2: "run [Frame 936, Frame 952, Frame 968, Frame 984] heldA = Inr preJump"
  by (simp add: preJump_def heldA_def autoplay_eval)

lemma autoplayRun_3: "run [Frame 1000, ClickRestart] preJump = Inr restarted"
  by (simp add: restarted_def preJump_def heldA_def autoplay_eval)

lemma autoplayRun_4: "run [Frame 1016, Frame 1032, Frame 1048, Frame 1064] restarted = Inr preLand"
  by (simp add: preLand_def restarted_def heldA_def autoplay_eval)

lemma autoplayRun_5: "run [Frame 1080] preLand = Inr landed"
  by (simp add: landed_def preLand_def restarted_def heldA_def autoplay_eval)

lemma autoplayRun_6:
  "run [Frame 1800] landed = Inr (projr (run [Frame 1800] landed)) \<and>
   autoJumpLog (projr (run [Frame 1800] landed)) = [(1000, True), (1800, True)]"
  by (simp add: landed_def preLand_def restarted_def heldA_def autoplay_eval)

lemma autoplayRun_all:
  "run autoplayRun (constructor 800 600 (\<lambda>n. 1 / 2)) = run [Frame 1800] landed"
  unfolding autoplayRun_def
  by (simp only: run_append autoplayRun_1 autoplayRun_2 autoplayRun_3 autoplayRun_4
      autoplayRun_5 sum.case)

theorem autoplay_flag_and_cooldown_witness:
  "\<not> isGrounded (player restarted) \<and> autoJump 1016 restarted = restarted \<and>
   isGrounded (player landed) \<and> 1096 - lastAutoJumpTime landed < autoJumpCooldown landed \<and>
   autoJump 1096 landed = landed \<and>
   gameState preLand = Playing \<and> update 1080 preLand = Inr landed \<and>
   checkIfGrounded
     (updatePlayer
        (preLand\<lparr>autoMode :=
                    (case keys preLand ''KeyA'' of Some b \<Rightarrow> b | None \<Rightarrow> False)\<rparr>)) \<and>
   run autoplayRun (constructor 800 600 (\<lambda>n. 1 / 2))
     = Inr (projr (run autoplayRun (constructor 800 600 (\<lambda>n. 1 / 2)))) \<and>
   autoJumpLog (projr (run autoplayRun (constructor 800 600 (\<lambda>n. 1 / 2))))
     = [(1000, True), (1800, True)] \<and>
   sorted_wrt (\<lambda>a b. 800 \<le> b - a) [1000, 1800 :: int]"
proof -
  have a: "\<not> isGrounded (player restarted)"
    by (simp add: restarted_def)
  have b: "isGrounded (player landed)"
    "1096 - lastAutoJumpTime landed < autoJumpCooldown landed"
    by (simp_all add: landed_def preLand_def restarted_def heldA_def resizeCanvas_def
        startGame_def constructor_def)
  have c: "run autoplayRun (constructor 800 600 (\<lambda>n. 1 / 2))
             = Inr (projr (run autoplayRun (constructor 800 600 (\<lambda>n. 1 / 2))))"
    and d: "autoJumpLog (projr (run autoplayRun (constructor 800 600 (\<lambda>n. 1 / 2))))
             = [(1000, True), (1800, True)]"
    unfolding autoplayRun_all using autoplayRun_6 by simp_all
  have p: "gameState preLand = Playing"
    by (simp add: preLand_def restarted_def heldA_def resizeCanvas_def startGame_def
        constructor_def)
  have u: "update 1080 preLand = Inr landed"
    using autoplayRun_5 by (cases "update 1080 preLand") simp_all
  have e: "autoJump 1016 restarted = restarted"
    using autoplay_flag_and_cooldown [of restarted 1016 restarted "[]" 800 600 "\<lambda>n. 1 / 2"
        "constructor 800 600 (\<lambda>n. 1 / 2)"] a by simp
  have f: "autoJump 1096 landed = landed"
    using autoplay_flag_and_cooldown [of landed 1096 landed "[]" 800 600 "\<lambda>n. 1 / 2"
        "constructor 800 600 (\<lambda>n. 1 / 2)"] b by simp
  have k: "checkIfGrounded
     (updatePlayer
        (preLand\<lparr>autoMode :=
                    (case keys preLand ''KeyA'' of Some b \<Rightarrow> b | None \<Rightarrow> False)\<rparr>))"
  proof -
    obtain g2 where g2: "landed = (let g6 = updateCamera (checkCollisions (updateParticles
          (updateObstacles g2))) in if autoMode g6 then autoJump 1080 g6 else g6)"
      and fl: "isGrounded (player (updateCamera
                  (checkCollisions (updateParticles (updateObstacles g2)))))
                = checkIfGrounded
                    (updatePlayer
                      (preLand\<lparr>autoMode :=
                        (case keys preLand ''KeyA'' of Some b \<Rightarrow> b | None \<Rightarrow> False)\<rparr>))"
      using autoplay_flag_and_cooldown [of preLand 1080 landed "[]" 800 600 "\<lambda>n. 1 / 2"
        "constructor 800 600 (\<lambda>n. 1 / 2)"] p u by auto
    let ?g6 = "updateCamera (checkCollisions (updateParticles (updateObstacles g2)))"
    have "isGrounded (player ?g6)"
    proof (rule ccontr)
      assume n: "\<not> isGrounded (player ?g6)"
      then have same: "autoJump 1080 ?g6 = ?g6" by (simp add: autoJump_def)
      have "landed = (if autoMode ?g6 then autoJump 1080 ?g6 else ?g6)"
        using g2 by (simp add: Let_def)
      then have "landed = ?g6" using same by metis
      then show False using n b(1) by simp
    qed
    then show ?thesis using fl by simp
  qed
  have g: "sorted_wrt (\<lambda>a b. 800 \<le> b - a) [1000, 1800 :: int]"
    using autoplay_flag_and_cooldown [of landed 1096 landed autoplayRun 800 600 "\<lambda>n. 1 / 2"
        "projr (run autoplayRun (constructor 800 600 (\<lambda>n. 1 / 2)))"] c d by simp
  from a b c d e f g p u k show ?thesis by blast
qed

lemma airRun_8:
  "run [ClickStart, Frame 1000, KeyDown ''KeyA'', Frame 1016, Frame 1032, Frame 1048,
       Frame 1064, Frame 1080, Frame 1096, Frame 1112]
     (constructor 325 610 airDraws) = Inr fallen8"
  by (simp add: fallen8_def airBase_def airDraws_def autoplay_eval spike_eval
      generateBlock_def)

lemma airRun_16:
  "run [Frame 1128, Frame 1144, Frame 1160, Frame 1176, Frame 1192, Frame 1208,
       Frame 1224, Frame 1240] fallen8 = Inr fallen16"
  by (simp add: fallen16_def fallen8_def airBase_def airDraws_def autoplay_eval spike_eval
      generateBlock_def)

lemma airRun_24:
  "run [Frame 1256, Frame 1272, Frame 1288, Frame 1304, Frame 1320, Frame 1336,
       Frame 1352, Frame 1368] fallen16 = Inr fallen24"
  by (simp add: fallen24_def fallen16_def airBase_def airDraws_def autoplay_eval spike_eval
      generateBlock_def)

lemma airRun_32:
  "run [Frame 1384, Frame 1400, Frame 1416, Frame 1432, Frame 1448, Frame 1464,
       Frame 1480, Frame 1496] fallen24 = Inr fallen32"
  by (simp add: fallen32_def fallen24_def airBase_def airDraws_def autoplay_eval spike_eval
      generateBlock_def)

lemma airRun_append:
  "run airRun (constructor 325 610 airDraws) = Inr fallen32"
  unfolding airRun_def
  by (simp only: run_append airRun_8 airRun_16 airRun_24 airRun_32 sum.case)

lemma fallen32_frame: "update 1512 fallen32 = Inr (autoJump 1512 midAir)"
  by (simp add: midAir_def fallen32_def airBase_def airDraws_def tick_eval spike_eval)

text \<open>
  C7 as stated fails. \<open>airRun\<close> leaves the session in \<open>fallen32\<close>, and the frame at clock
  1512 calls \<open>autoJump\<close> in the state \<open>midAir\<close>. There the flag is set: at the start of
  the frame the falling player's bottom edge, 488.8, was within 5 of the top of a block
  that it still overlapped by 4. Since then the block has scrolled clear. In \<open>midAir\<close> the
  surface test is false: the bottom edge is 71.2 above the ground line 560, the player
  falls at 26.4 and touches neither obstacle. A spike is 4 ahead, and autoplay issues a
  jump: the velocity becomes -15 and the jump is logged.
\<close>

theorem autoplay_jumps_in_mid_air:
  "run airRun (constructor 325 610 airDraws) = Inr fallen32 \<and>
   gameState fallen32 = Playing \<and>
   update 1512 fallen32 = Inr (autoJump 1512 midAir) \<and>
   \<not> checkIfGrounded midAir \<and>
   py (player midAir) + pheight (player midAir) = 2444 / 5 \<and>
   gameHeight midAir - 50 = 560 \<and>
   velocityY (player midAir) = 132 / 5 \<and>
   autoJumpLog midAir = [] \<and>
   autoJumpLog (autoJump 1512 midAir) = [(1512, True)] \<and>
   velocityY (player (autoJump 1512 midAir)) = - 15"
proof -
  have a: "gameState fallen32 = Playing"
    by (simp add: fallen32_def airBase_def startGame_def)
  have b: "\<not> checkIfGrounded midAir"
    by (simp add: midAir_def airBase_def startGame_def constructor_def checkIfGrounded_def)
  have c: "py (player midAir) + pheight (player midAir) = 2444 / 5"
    "gameHeight midAir - 50 = 560" "velocityY (player midAir) = 132 / 5"
    "autoJumpLog midAir = []"
    by (simp_all add: midAir_def airBase_def startGame_def constructor_def)
  have d: "autoJump 1512 midAir = autoJumpNow 1512 midAir"
    by (simp add: midAir_def airBase_def startGame_def constructor_def autoJump_def)
  have e: "autoJumpLog (autoJump 1512 midAir) = [(1512, True)]"
    unfolding d by (simp add: autoJumpNow_log) (simp add: midAir_def airBase_def
        startGame_def constructor_def)
  have f: "velocityY (player (autoJump 1512 midAir)) = - 15"
    unfolding d
    by (simp add: autoJumpNow_def jump_def Let_def midAir_def airBase_def startGame_def
        constructor_def)
  from airRun_append a fallen32_frame b c e f show ?thesis by simp
qed

subsection \<open>Restart and the fresh session\<close>

lemma restartGame_resets:
  "obstacles (restartGame g) = []" "platforms (restartGame g) = []"
  "particles (restartGame g) = []" "score (restartGame g) = 0" "distance (restartGame g) = 0"
  "gameSpeed (restartGame g) = 5" "cameraX (restartGame g) = 0"
  "gameState (restartGame g) = Playing"
  "px (player (restartGame g)) = 100" "py (player (restartGame g)) = gameHeight g - 100"
  "velocityY (player (restartGame g)) = 0" "isGrounded (player (restartGame g)) = False"
  "rotation (player (restartGame g)) = 0"
  by (simp_all add: restartGame_def startGame_def)

lemma fresh_session:
  "obstacles (startGame (constructor w h rnd)) = []"
  "platforms (startGame (constructor w h rnd)) = []"
  "particles (startGame (constructor w h rnd)) = []"
  "score (startGame (constructor w h rnd)) = 0" "distance (startGame (constructor w h rnd)) = 0"
  "gameSpeed (startGame (constructor w h rnd)) = 5" "cameraX (startGame (constructor w h rnd)) = 0"
  "gameState (startGame (constructor w h rnd)) = Playing"
  "px (player (startGame (constructor w h rnd))) = 100"
  "py (player (startGame (constructor w h rnd))) = 0"
  "velocityY (player (startGame (constructor w h rnd))) = 0"
  "isGrounded (player (startGame (constructor w h rnd))) = False"
  "rotation (player (startGame (constructor w h rnd))) = 0"
  by (simp_all add: constructor_def startGame_def)

lemma crashRun_result:
  "run crashRun (constructor 150 600 crashDraws) =
     Inr ((constructor 150 600 crashDraws)
       \<lparr>gameState := GameOver, distance := 1, gameSpeed := 5003 / 1000,
        cameraX := 15003 / 1000, randomCount := 6,
        player := \<lparr>px = 100, py = 2524 / 5, pwidth = 40, pheight = 40, velocityY = 12 / 5,
                    isGrounded = False, rotation = 3 / 5, pcolor = ''#00ff88''\<rparr>,
        obstacles := [newSpike (134997 / 1000) 520]\<rparr>)"
  by (simp add: crashRun_def crashDraws_def tick_eval spike_eval resizeCanvas_def)

text \<open>
  C3 at a concrete session. In a 150 by 600 container the fresh session enters Playing
  with the player at y = 0: the constructor's \<open>y: 0\<close> is never replaced, since
  \<open>setupResponsiveCanvas\<close> runs before the player exists and moves it only while
  Playing. After \<open>crashRun\<close> has ended in GameOver, a restart puts the player at
  y = 500. Everything else that a restart resets equals the fresh session.
\<close>

theorem restart_y_differs_from_fresh_session:
  "gameState (projr (run crashRun (constructor 150 600 crashDraws))) = GameOver \<and>
   py (player (startGame (constructor 150 600 crashDraws))) = 0 \<and>
   py (player (restartGame (projr (run crashRun (constructor 150 600 crashDraws))))) = 500 \<and>
   obstacles (restartGame (projr (run crashRun (constructor 150 600 crashDraws)))) = [] \<and>
   platforms (restartGame (projr (run crashRun (constructor 150 600 crashDraws)))) = [] \<and>
   particles (restartGame (projr (run crashRun (constructor 150 600 crashDraws)))) = [] \<and>
   score (restartGame (projr (run crashRun (constructor 150 600 crashDraws)))) = 0 \<and>
   distance (restartGame (projr (run crashRun (constructor 150 600 crashDraws)))) = 0 \<and>
   gameSpeed (restartGame (projr (run crashRun (constructor 150 600 crashDraws)))) = 5 \<and>
   cameraX (restartGame (projr (run crashRun (constructor 150 600 crashDraws)))) = 0 \<and>
   px (player (restartGame (projr (run crashRun (constructor 150 600 crashDraws))))) = 100 \<and>
   velocityY (player (restartGame (projr (run crashRun (constructor 150 600 crashDraws))))) = 0 \<and>
   \<not> isGrounded (player (restartGame (projr (run crashRun (constructor 150 600 crashDraws))))) \<and>
   rotation (player (restartGame (projr (run crashRun (constructor 150 600 crashDraws))))) = 0"
  unfolding crashRun_result
  by (simp add: restartGame_resets fresh_session) (simp add: constructor_def)

end
